theory Spec2Isabelle
  imports Complex_Main "HOL-Library.AList"
begin

section \<open>Python values, exceptions and the action type\<close>

text \<open>
  The script \<^verbatim>\<open>predict_cond.py\<close> is a sequence of calls into the geoprocessing
  toolkit (arcpy), the operating system and three helper modules.  Every call that changes
  something is an action on an explicit \<open>world\<close>; every exception the script can meet is a
  value of \<open>error\<close>, and \<^verbatim>\<open>sys.exit\<close> is the exception \<open>SystemExit\<close> as in Python.
\<close>

datatype pyval = NoneVal | BoolVal bool

datatype error =
    IOError string
  | ExecuteError string
  | KeyError string
  | AttributeError string
  | UnboundLocalError string
  | SystemExit int

text \<open>\<^verbatim>\<open>UnboundLocalError\<close> is the subclass of \<^verbatim>\<open>NameError\<close> that Python raises
  when a local variable is read before it was bound.\<close>

fun is_NameError :: "error \<Rightarrow> bool" where
  "is_NameError (UnboundLocalError v) = True"
| "is_NameError e = False"

section \<open>os.path on Windows and time.strftime\<close>

definition sep :: char where
  "sep = CHR 0x5C"

definition is_sep :: "char \<Rightarrow> bool" where
  "is_sep c = (c = CHR 0x5C \<or> c = CHR ''/'')"

definition lower :: "char \<Rightarrow> char" where
  "lower c =
     (case map_of (zip ''ABCDEFGHIJKLMNOPQRSTUVWXYZ'' ''abcdefghijklmnopqrstuvwxyz'') c of
        Some l \<Rightarrow> l
      | None \<Rightarrow> c)"

text \<open>\<^verbatim>\<open>s.find(sep, start)\<close>: the position of the first separator at or after
  \<open>start\<close>, if there is one.\<close>

definition find_sep :: "string \<Rightarrow> nat \<Rightarrow> nat option" where
  "find_sep s start =
     (let rest = drop start s
      in if sep \<in> set rest then Some (start + length (takeWhile (\<lambda>c. c \<noteq> sep) rest)) else None)"

text \<open>\<^verbatim>\<open>ntpath.splitdrive\<close>: the drive is a drive letter with its colon, or the
  \<^verbatim>\<open>\\server\share\<close> prefix of a UNC path.\<close>

definition splitdrive :: "string \<Rightarrow> string \<times> string" where
  "splitdrive p =
     (if 1 < length p then
        (let normp = map (\<lambda>c. if c = CHR ''/'' then sep else c) p in
         if take 2 normp = [sep, sep] \<and> take 1 (drop 2 normp) \<noteq> [sep] then
           (case find_sep normp 2 of
              None \<Rightarrow> ([], p)
            | Some index \<Rightarrow>
               (case find_sep normp (index + 1) of
                  Some index2 \<Rightarrow>
                    if index2 = index + 1 then ([], p) else (take index2 p, drop index2 p)
                | None \<Rightarrow> (p, [])))
         else if normp ! 1 = CHR '':'' then (take 2 p, drop 2 p)
         else ([], p))
      else ([], p))"

text \<open>\<^verbatim>\<open>ntpath.split\<close>: the tail is what follows the last separator; trailing
  separators are stripped from the head unless the head consists of separators only.\<close>

definition split_path :: "string \<Rightarrow> string \<times> string" where
  "split_path p0 =
     (let (d, p) = splitdrive p0;
          tail = rev (takeWhile (\<lambda>c. \<not> is_sep c) (rev p));
          head = rev (dropWhile (\<lambda>c. \<not> is_sep c) (rev p));
          head2 = rev (dropWhile is_sep (rev head))
      in (d @ (if head2 = [] then head else head2), tail))"

definition dirname :: "string \<Rightarrow> string" where
  "dirname p = fst (split_path p)"

definition basename :: "string \<Rightarrow> string" where
  "basename p = snd (split_path p)"

text \<open>\<^verbatim>\<open>ntpath.join\<close> of two components.\<close>

definition join :: "string \<Rightarrow> string \<Rightarrow> string" where
  "join path p =
     (let (result_drive, result_path) = splitdrive path;
          (p_drive, p_path) = splitdrive p;
          (drive, rest) =
            (if p_path \<noteq> [] \<and> is_sep (hd p_path)
             then (if p_drive \<noteq> [] \<or> result_drive = [] then p_drive else result_drive, p_path)
             else if p_drive \<noteq> [] \<and> p_drive \<noteq> result_drive
                     \<and> map lower p_drive \<noteq> map lower result_drive
             then (p_drive, p_path)
             else (if p_drive \<noteq> [] \<and> p_drive \<noteq> result_drive then p_drive else result_drive,
                   (if result_path \<noteq> [] \<and> \<not> is_sep (last result_path)
                    then result_path @ [sep] else result_path) @ p_path))
      in if rest \<noteq> [] \<and> \<not> is_sep (hd rest) \<and> drive \<noteq> [] \<and> last drive \<noteq> CHR '':''
         then drive @ [sep] @ rest
         else drive @ rest)"

record struct_time =
  tm_year :: nat
  tm_mon :: nat
  tm_mday :: nat
  tm_hour :: nat
  tm_min :: nat

definition digit :: "nat \<Rightarrow> char" where
  "digit n = ''0123456789'' ! (n mod 10)"

definition two_digits :: "nat \<Rightarrow> string" where
  "two_digits n = [digit (n div 10), digit n]"

text \<open>\<^verbatim>\<open>time.strftime("%Y%m%d%H%M")\<close> for a year of at most four digits.\<close>

definition strftime_YmdHM :: "struct_time \<Rightarrow> string" where
  "strftime_YmdHM t =
     two_digits (tm_year t div 100) @ two_digits (tm_year t) @ two_digits (tm_mon t)
       @ two_digits (tm_mday t) @ two_digits (tm_hour t) @ two_digits (tm_min t)"

fun dec :: "nat \<Rightarrow> string" where
  "dec n = (if n < 10 then [digit n] else dec (n div 10) @ [digit n])"

section \<open>Datasets, documents and the world\<close>

record field =
  name :: string
  type :: string

datatype val = Null | IntV int | RealV real | TextV string

type_synonym row = "(string \<times> val) list"

datatype data_type = FeatureClass | Table | RasterDataset

record dataset =
  dataType :: data_type
  dfields :: "field list"
  rows :: "row list"

text \<open>Modelled from the spec: the run-metadata record of module \<^verbatim>\<open>metadata.meta_sfr\<close>
  (not among the sources): a named run with a list of key/value parameters, a start/stop
  timestamp pair and a final status; created at start, finalized at end, serialized once.\<close>

record Run =
  parameters :: "(string \<times> string) list"
  timeStart :: string
  timeStop :: "string option"
  status :: "string option"

record MetadataWriter =
  toolName :: string
  toolVersion :: string
  currentRun :: "Run option"

text \<open>Modelled from the spec: the project lineage document of module
  \<^verbatim>\<open>metadata.meta_rs\<close> (not among the sources): the realization dictionary it holds and
  the entries added to it, each entry the name of the method called and its arguments.\<close>

record ProjectXML =
  XMLpath :: string
  realIDdict :: "string \<rightharpoonup> string"
  entries :: "(string \<times> string list) list"

datatype item = Dataset dataset | MetadataFile MetadataWriter | ProjectFile ProjectXML

datatype message = Message string | ErrorMessage string

datatype proc_state = Running | Terminated

text \<open>
  The world: what is stored on disk by path, the toolkit's in-memory workspace by dataset
  name, the layers and table views of the session (each a reference to the path of its
  source), the project directory tree, the workspace type \<^verbatim>\<open>arcpy.Describe\<close> reports for
  a directory, the feature datasets (containers inside a geodatabase, which can be described
  but are not workspaces), the messages shown to the user and the processes launched, each with its
  command line and whether it is still running.  Paths are compared as they are spelled.
\<close>

record world =
  disk :: "string \<rightharpoonup> item"
  in_memory :: "(string \<times> dataset) list"
  layers :: "string \<rightharpoonup> string"
  project :: "string \<rightharpoonup> item"
  workspaces :: "string \<rightharpoonup> string"
  feature_datasets :: "string list"
  messages :: "message list"
  processes :: "(string list \<times> proc_state) list"

type_synonym 'a action = "world \<Rightarrow> (error + 'a) \<times> world"

definition return :: "'a \<Rightarrow> 'a action" where
  "return x w = (Inr x, w)"

definition raise :: "error \<Rightarrow> 'a action" where
  "raise e w = (Inl e, w)"

definition bind :: "'a action \<Rightarrow> ('a \<Rightarrow> 'b action) \<Rightarrow> 'b action" where
  "bind m f w = (case m w of (Inl e, w') \<Rightarrow> (Inl e, w') | (Inr x, w') \<Rightarrow> f x w')"

section \<open>The toolkit calls the script makes\<close>

text \<open>A path of the form \<^verbatim>\<open>in_memory\name\<close> (in any letter case) names a dataset
  of the in-memory workspace.\<close>

definition in_memory_name :: "string \<Rightarrow> string option" where
  "in_memory_name p =
     (if map lower (take 9 p) = ''in_memory'' \<and> 9 < length p \<and> is_sep (p ! 9)
      then Some (drop 10 p) else None)"

text \<open>A string with a separator in it is a path; a string without one may be the name
  of a layer or table view, which stands for its source.\<close>

definition is_path :: "string \<Rightarrow> bool" where
  "is_path p = list_ex is_sep p"

definition source_path :: "world \<Rightarrow> string \<Rightarrow> string" where
  "source_path w p =
     (if is_path p then p else (case layers w p of Some src \<Rightarrow> src | None \<Rightarrow> p))"

definition lookup_data :: "world \<Rightarrow> string \<Rightarrow> dataset option" where
  "lookup_data w p =
     (let q = source_path w p in
      case in_memory_name q of
        Some n \<Rightarrow> map_of (in_memory w) n
      | None \<Rightarrow> (case disk w q of Some (Dataset d) \<Rightarrow> Some d | _ \<Rightarrow> None))"

definition store_data :: "string \<Rightarrow> dataset \<Rightarrow> world \<Rightarrow> world" where
  "store_data p d w =
     (case in_memory_name p of
        Some n \<Rightarrow> w\<lparr>in_memory := AList.update n d (in_memory w)\<rparr>
      | None \<Rightarrow> w\<lparr>disk := (disk w)(p \<mapsto> Dataset d)\<rparr>)"

definition AddMessage :: "string \<Rightarrow> unit action" where
  "AddMessage s w = (Inr (), w\<lparr>messages := messages w @ [Message s]\<rparr>)"

definition AddError :: "string \<Rightarrow> unit action" where
  "AddError s w = (Inr (), w\<lparr>messages := messages w @ [ErrorMessage s]\<rparr>)"

text \<open>\<^verbatim>\<open>arcpy.Describe(dir).workspaceType\<close>: describing what does not exist raises
  \<^verbatim>\<open>IOError\<close>; the description of a feature dataset has no workspace type, and asking
  for it raises \<^verbatim>\<open>AttributeError\<close>.\<close>

definition Describe_workspaceType :: "string \<Rightarrow> string action" where
  "Describe_workspaceType dir w =
     (case workspaces w dir of
        Some t \<Rightarrow> (Inr t, w)
      | None \<Rightarrow>
          (if dir \<in> set (feature_datasets w) then (Inl (AttributeError ''workspaceType''), w)
           else (Inl (IOError dir), w)))"

text \<open>The wild card of the toolkit's list functions: \<open>*\<close> stands for any run of
  characters, letters match in either case.\<close>

fun wild_match :: "string \<Rightarrow> string \<Rightarrow> bool" where
  "wild_match [] [] = True"
| "wild_match [] (c # cs) = False"
| "wild_match (p # ps) [] = (p = CHR ''*'' \<and> wild_match ps [])"
| "wild_match (p # ps) (c # cs) =
     (if p = CHR ''*'' then wild_match ps (c # cs) \<or> wild_match (p # ps) cs
      else lower p = lower c \<and> wild_match ps cs)"

definition ListFields :: "string \<Rightarrow> string option \<Rightarrow> (field list) action" where
  "ListFields ds wild_card w =
     (case lookup_data w ds of
        None \<Rightarrow> (Inl (IOError ds), w)
      | Some d \<Rightarrow>
          (Inr (case wild_card of
                  None \<Rightarrow> dfields d
                | Some p \<Rightarrow> filter (\<lambda>f. wild_match p (name f)) (dfields d)), w))"

section \<open>checkLineOID\<close>

definition fieldName :: string where
  "fieldName = ''LineOID''"

text \<open>The loop of \<^verbatim>\<open>checkLineOID\<close> returns in its first iteration, whichever branch is
  taken; when there is nothing to iterate over the function ends without a
  \<^verbatim>\<open>return\<close>, and its value is \<^verbatim>\<open>None\<close>.\<close>

fun checkLineOID_loop :: "field list \<Rightarrow> pyval" where
  "checkLineOID_loop [] = NoneVal"
| "checkLineOID_loop (f # fs) = (if name f = fieldName then BoolVal True else BoolVal False)"

definition checkLineOID :: "string \<Rightarrow> pyval action" where
  "checkLineOID in_fc =
     bind (ListFields in_fc (Some fieldName)) (\<lambda>fields. return (checkLineOID_loop fields))"

section \<open>More toolkit calls\<close>

text \<open>
  The calls below follow the toolkit's documentation.  A call whose input dataset does not
  exist fails with \<^verbatim>\<open>ExecuteError\<close>.  Outputs are overwritten
  (\<^verbatim>\<open>arcpy.env.overwriteOutput = True\<close>).  A layer or table view is a reference to
  its source, not a copy.
\<close>

definition MakeFeatureLayer :: "string \<Rightarrow> string \<Rightarrow> unit action" where
  "MakeFeatureLayer in_features out_layer w =
     (case lookup_data w in_features of
        None \<Rightarrow> (Inl (ExecuteError in_features), w)
      | Some d \<Rightarrow> (Inr (), w\<lparr>layers := (layers w)(out_layer \<mapsto> source_path w in_features)\<rparr>))"

definition MakeTableView :: "string \<Rightarrow> string \<Rightarrow> unit action" where
  "MakeTableView in_table out_view w =
     (case lookup_data w in_table of
        None \<Rightarrow> (Inl (ExecuteError in_table), w)
      | Some d \<Rightarrow> (Inr (), w\<lparr>layers := (layers w)(out_view \<mapsto> source_path w in_table)\<rparr>))"

definition FeatureClassToFeatureClass :: "string \<Rightarrow> string \<Rightarrow> string \<Rightarrow> unit action" where
  "FeatureClassToFeatureClass in_features out_path out_name w =
     (case lookup_data w in_features of
        None \<Rightarrow> (Inl (ExecuteError in_features), w)
      | Some d \<Rightarrow> (Inr (), store_data (out_path @ [sep] @ out_name) (d\<lparr>dataType := FeatureClass\<rparr>) w))"

definition TableToTable :: "string \<Rightarrow> string \<Rightarrow> string \<Rightarrow> unit action" where
  "TableToTable in_rows out_path out_name w =
     (case lookup_data w in_rows of
        None \<Rightarrow> (Inl (ExecuteError in_rows), w)
      | Some d \<Rightarrow> (Inr (), store_data (out_path @ [sep] @ out_name) (d\<lparr>dataType := Table\<rparr>) w))"

definition CopyFeatures :: "string \<Rightarrow> string \<Rightarrow> unit action" where
  "CopyFeatures in_features out_feature_class w =
     (case lookup_data w in_features of
        None \<Rightarrow> (Inl (ExecuteError in_features), w)
      | Some d \<Rightarrow> (Inr (), store_data out_feature_class (d\<lparr>dataType := FeatureClass\<rparr>) w))"

text \<open>
  \<^verbatim>\<open>JoinField_management\<close> with no field list transfers every field of the join table
  to the input table, which is changed in place.  A transferred field whose name is taken
  gets the suffix \<open>_1\<close>, \<open>_2\<close>, ...; a transferred object-id field becomes an integer
  field.  Every row of the input table is kept: it receives the values of the first row
  of the join table whose key equals its own, and nulls when there is none.  Null keys
  match nothing.
\<close>

definition unique_name :: "string list \<Rightarrow> string \<Rightarrow> string" where
  "unique_name used n =
     (if n \<notin> set used then n
      else (case find (\<lambda>m. m \<notin> set used) (map (\<lambda>k. n @ ''_'' @ dec k) [1..<length used + 2]) of
              Some m \<Rightarrow> m
            | None \<Rightarrow> n))"

fun join_names :: "string list \<Rightarrow> field list \<Rightarrow> (field \<times> string) list" where
  "join_names used [] = []"
| "join_names used (f # fs) =
     (let n = unique_name used (name f) in (f, n) # join_names (n # used) fs)"

definition joined_field :: "field \<times> string \<Rightarrow> field" where
  "joined_field fn =
     \<lparr>name = snd fn, type = (if type (fst fn) = ''OID'' then ''Integer'' else type (fst fn))\<rparr>"

definition cell :: "row \<Rightarrow> string \<Rightarrow> val" where
  "cell r n = (case map_of r n of Some v \<Rightarrow> v | None \<Rightarrow> Null)"

definition join_row :: "string \<Rightarrow> string \<Rightarrow> row list \<Rightarrow> (field \<times> string) list \<Rightarrow> row \<Rightarrow> row" where
  "join_row in_field join_field jrows names r =
     (let k = cell r in_field;
          m = (if k = Null then None else find (\<lambda>jr. cell jr join_field = k) jrows)
      in r @ map (\<lambda>fn. (snd fn, case m of Some jr \<Rightarrow> cell jr (name (fst fn)) | None \<Rightarrow> Null)) names)"

definition JoinField :: "string \<Rightarrow> string \<Rightarrow> string \<Rightarrow> string \<Rightarrow> unit action" where
  "JoinField in_data in_field join_table join_field w =
     (case (lookup_data w in_data, lookup_data w join_table) of
        (Some d, Some j) \<Rightarrow>
          if in_field \<notin> set (map name (dfields d)) then (Inl (ExecuteError in_field), w)
          else if join_field \<notin> set (map name (dfields j)) then (Inl (ExecuteError join_field), w)
          else
            (let names = join_names (map name (dfields d)) (dfields j)
             in (Inr (), store_data (source_path w in_data)
                   (d\<lparr>dfields := dfields d @ map joined_field names,
                      rows := map (join_row in_field join_field (rows j) names) (rows d)\<rparr>) w))
      | (None, _) \<Rightarrow> (Inl (ExecuteError in_data), w)
      | (_, None) \<Rightarrow> (Inl (ExecuteError join_table), w))"

text \<open>\<^verbatim>\<open>DeleteField_management\<close>: the list of fields to drop is a required value
  and every field in it has to exist.\<close>

definition DeleteField :: "string \<Rightarrow> string list \<Rightarrow> unit action" where
  "DeleteField in_table drop_field w =
     (case lookup_data w in_table of
        None \<Rightarrow> (Inl (ExecuteError in_table), w)
      | Some d \<Rightarrow>
          if drop_field = [] then (Inl (ExecuteError ''ERROR 000735''), w)
          else if \<not> set drop_field \<subseteq> set (map name (dfields d))
          then (Inl (ExecuteError ''ERROR 000728''), w)
          else (Inr (), store_data (source_path w in_table)
                  (d\<lparr>dfields := filter (\<lambda>f. name f \<notin> set drop_field) (dfields d),
                     rows := map (filter (\<lambda>kv. fst kv \<notin> set drop_field)) (rows d)\<rparr>) w))"

text \<open>\<^verbatim>\<open>Delete_management\<close> of a dataset or file given by its path.\<close>

definition Delete_management :: "string \<Rightarrow> unit action" where
  "Delete_management in_data w =
     (case in_memory_name in_data of
        Some n \<Rightarrow>
          (if map_of (in_memory w) n = None then (Inl (ExecuteError in_data), w)
           else (Inr (), w\<lparr>in_memory := AList.delete n (in_memory w)\<rparr>))
      | None \<Rightarrow>
          (if disk w in_data = None then (Inl (ExecuteError in_data), w)
           else (Inr (), w\<lparr>disk := (disk w)(in_data := None)\<rparr>)))"

text \<open>With \<^verbatim>\<open>arcpy.env.workspace\<close> set to the in-memory workspace,
  \<^verbatim>\<open>ListFeatureClasses\<close> and \<^verbatim>\<open>ListTables\<close> give the names of its feature classes
  and of its tables.\<close>

definition list_in_memory :: "data_type \<Rightarrow> world \<Rightarrow> string list" where
  "list_in_memory t w =
     filter (\<lambda>n. case map_of (in_memory w) n of Some d \<Rightarrow> dataType d = t | None \<Rightarrow> False)
       (remdups (map fst (in_memory w)))"

definition ListFeatureClasses :: "world \<Rightarrow> string list" where
  "ListFeatureClasses w = list_in_memory FeatureClass w"

definition ListTables :: "world \<Rightarrow> string list" where
  "ListTables w = list_in_memory Table w"

section \<open>removeFields and clear_inmemory\<close>

definition removeFields :: "string \<Rightarrow> unit action" where
  "removeFields in_fc =
     bind (AddMessage ''Cleaning up final output...'') (\<lambda>_.
     bind (ListFields in_fc None) (\<lambda>field_obj_list.
     DeleteField in_fc
       (map name (filter (\<lambda>f. \<not> type f = ''Geometry''
                              \<and> \<not> type f = ''OID''
                              \<and> \<not> name f = ''LineOID''
                              \<and> \<not> name f = ''error_code''
                              \<and> \<not> name f = ''prdCond'') field_obj_list))))"

text \<open>The two loops of \<^verbatim>\<open>clear_inmemory\<close>: each name is resolved in the current
  workspace, \<^verbatim>\<open>IN_MEMORY\<close>.\<close>

fun delete_each :: "string list \<Rightarrow> unit action" where
  "delete_each [] = return ()"
| "delete_each (f # fs) =
     bind (Delete_management (''IN_MEMORY'' @ [sep] @ f)) (\<lambda>_. delete_each fs)"

definition clear_inmemory :: "unit action" where
  "clear_inmemory =
     bind (AddMessage ''Deleting in_memory data...'') (\<lambda>_.
     (\<lambda>w. (let list_fc = ListFeatureClasses w;
                list_tbl = ListTables w
            in bind (delete_each list_fc) (\<lambda>_. delete_each list_tbl)) w))"

section \<open>What a run takes from outside\<close>

text \<open>
  Besides the five parameters of \<^verbatim>\<open>main\<close>, a run reads the location of the script
  (\<^verbatim>\<open>os.path.realpath(__file__)\<close>), the module-level realization name, the clock,
  and the outcome of the external scoring process.  The helper modules
  \<^verbatim>\<open>riverscapes\<close>, \<^verbatim>\<open>metadata.meta_sfr\<close> and \<^verbatim>\<open>metadata.meta_rs\<close> are not among
  the sources; what they compute that the script only passes on (directory names,
  identifiers, timestamps, the realization dictionary of the project document) is a
  parameter here.
\<close>

record env =
  script_file :: string
  rs_real_name :: string
  localtime :: struct_time
  run_start :: string
  run_stop :: string
  condRF :: "string list \<Rightarrow> world \<Rightarrow> int \<times> dataset option"
  realizations :: "string \<rightharpoonup> string"
  getRSDirAbs :: "string \<Rightarrow> nat \<Rightarrow> nat \<Rightarrow> string \<Rightarrow> string"
  getRSDirRel :: "nat \<Rightarrow> nat \<Rightarrow> string \<Rightarrow> string"
  finalize_times :: "string \<times> string"
  getUUID :: "nat \<Rightarrow> string"

text \<open>\<^verbatim>\<open>subprocess.Popen(cmd, ...)\<close> starts a process and returns at once, with a
  handle on the process: here its position in the list of processes.\<close>

definition Popen :: "string list \<Rightarrow> nat action" where
  "Popen cmd w = (Inr (length (processes w)), w\<lparr>processes := processes w @ [(cmd, Running)]\<rparr>)"

text \<open>
  Modelled from the spec: the external scoring script \<^verbatim>\<open>condRF.R\<close> (not among the
  sources), launched with three positional arguments (model artifact path, output
  directory, parameter table path); on success a file named \<^verbatim>\<open>predicted_cond.csv\<close>
  appears in the output directory.  \<open>condRF\<close> gives the exit code of the process and the
  table it writes, if any.

  \<^verbatim>\<open>process.wait()\<close> returns when the process has terminated: whatever the process
  writes has been written by then, and the value returned is its exit code (also when
  the process had terminated before).
\<close>

definition wait :: "env \<Rightarrow> nat \<Rightarrow> int action" where
  "wait e process w =
     (if process < length (processes w) then
        (case processes w ! process of
           (cmd, Terminated) \<Rightarrow>
            (case cmd of
               [prog, script, model, out, params] \<Rightarrow> (Inr (fst (condRF e [model, out, params] w)), w)
             | _ \<Rightarrow> (Inr 1, w))
         | (cmd, Running) \<Rightarrow>
            (case cmd of
               [prog, script, model, out, params] \<Rightarrow>
                 (case condRF e [model, out, params] w of
                    (returncode, written) \<Rightarrow>
                      (Inr returncode,
                       (case written of
                          Some t \<Rightarrow>
                            w\<lparr>disk := (disk w)(out @ [sep] @ ''predicted_cond.csv'' \<mapsto> Dataset t)\<rparr>
                        | None \<Rightarrow> w)
                       \<lparr>processes := (processes w)[process := (cmd, Terminated)]\<rparr>))
             | _ \<Rightarrow> (Inr 1, w\<lparr>processes := (processes w)[process := (cmd, Terminated)]\<rparr>)))
      else (Inr 1, w))"

text \<open>Modelled from the spec: \<^verbatim>\<open>meta_sfr.MetadataWriter\<close>; the document is
  serialized by \<^verbatim>\<open>writeMetadataFile\<close> only.\<close>

definition MetadataWriter_init :: "string \<Rightarrow> string \<Rightarrow> MetadataWriter" where
  "MetadataWriter_init tool version = \<lparr>toolName = tool, toolVersion = version, currentRun = None\<rparr>"

definition createRun :: "string \<Rightarrow> MetadataWriter \<Rightarrow> MetadataWriter" where
  "createRun t m =
     m\<lparr>currentRun := Some \<lparr>parameters = [], timeStart = t, timeStop = None, status = None\<rparr>\<rparr>"

definition addParameter :: "string \<Rightarrow> string \<Rightarrow> MetadataWriter \<Rightarrow> MetadataWriter" where
  "addParameter n v m =
     m\<lparr>currentRun := map_option (\<lambda>r. r\<lparr>parameters := parameters r @ [(n, v)]\<rparr>) (currentRun m)\<rparr>"

definition finalizeRun :: "string \<Rightarrow> string \<Rightarrow> MetadataWriter \<Rightarrow> MetadataWriter" where
  "finalizeRun s t m =
     m\<lparr>currentRun := map_option (\<lambda>r. r\<lparr>timeStop := Some t, status := Some s\<rparr>) (currentRun m)\<rparr>"

definition writeMetadataFile :: "string \<Rightarrow> MetadataWriter \<Rightarrow> unit action" where
  "writeMetadataFile path m w = (Inr (), w\<lparr>disk := (disk w)(path \<mapsto> MetadataFile m)\<rparr>)"

text \<open>Modelled from the spec: \<^verbatim>\<open>meta_rs.ProjectXML\<close> and
  \<^verbatim>\<open>riverscapes.copyRSFiles\<close>.  The lineage document is written once, by
  \<^verbatim>\<open>write\<close>; the files are copied into the project directory tree, which is a store
  of its own.\<close>

definition ProjectXML_init :: "env \<Rightarrow> string \<Rightarrow> string \<Rightarrow> ProjectXML" where
  "ProjectXML_init e tool xml = \<lparr>XMLpath = xml, realIDdict = realizations e, entries = []\<rparr>"

definition add_entry :: "string \<Rightarrow> string list \<Rightarrow> ProjectXML \<Rightarrow> ProjectXML" where
  "add_entry method args x = x\<lparr>entries := entries x @ [(method, args)]\<rparr>"

definition write_ProjectXML :: "ProjectXML \<Rightarrow> unit action" where
  "write_ProjectXML x w = (Inr (), w\<lparr>project := (project w)(XMLpath x \<mapsto> ProjectFile x)\<rparr>)"

definition copyRSFiles :: "string \<Rightarrow> string \<Rightarrow> unit action" where
  "copyRSFiles from_file to_file w =
     (case lookup_data w from_file of
        None \<Rightarrow> (Inl (IOError from_file), w)
      | Some d \<Rightarrow> (Inr (), w\<lparr>project := (project w)(to_file \<mapsto> Dataset d)\<rparr>))"

section \<open>metadata and main\<close>

definition MODEL_RF :: string where
  "MODEL_RF = ''rf17bCnd9''"

definition metadata :: "env \<Rightarrow> ProjectXML \<Rightarrow> string \<Rightarrow> string \<Rightarrow> string \<Rightarrow> unit action" where
  "metadata e ecXML in_fc out_fc real_id =
     (let (timeStart, timeStop) = finalize_times e;
          x1 = add_entry ''getOperator'' [] ecXML;
          x2 = add_entry ''addMeta'' [''Model'', MODEL_RF, ''project''] x1;
          x3 = add_entry ''addRealizationInputData''
                 [''project'', ''Vector'', ''EC'', real_id, ''Segmented Stream Network'', in_fc,
                  getUUID e 0] x2;
          x4 = add_entry ''addRealizationInputRef''
                 [''project'', ''DataTable'', ''EC'', real_id, ''PARAM_TABLE''] x3;
          x5 = add_entry ''addMeta'' [''Predict Start Time'', timeStart, ''project'', ''EC'', real_id] x4;
          x6 = add_entry ''addMeta'' [''Predict Stop Time'', timeStop, ''project'', ''EC'', real_id] x5;
          x7 = add_entry ''addOutput''
                 [''Vector'', ''Predicted Electrical Conductivity'', out_fc, ''project'', ''EC'',
                  real_id, ''PRED'', getUUID e 1] x6
      in write_ProjectXML x7)"

text \<open>The blocks of \<^verbatim>\<open>main\<close>, in the order of the source.  First the call of the
  external process and the conversion of its table: the exit code is not looked at.\<close>

definition run_model :: "env \<Rightarrow> string \<Rightarrow> string \<Rightarrow> unit action" where
  "run_model e out_dir in_params =
     (let scriptPathName = script_file e;
          pathName = dirname scriptPathName;
          scriptName = ''condRF.R'';
          modelName = ''rf17bCnd9.rdata'';
          rScriptPath = join pathName scriptName;
          modelPath = join pathName modelName;
          argR = [modelPath, out_dir, in_params];
          cmd = [''Rscript'', rScriptPath] @ argR
      in bind (Popen cmd) (\<lambda>process.
         bind (wait e process) (\<lambda>returncode.
         let predictedCondCSV = out_dir @ [sep] @ ''predicted_cond.csv''
         in TableToTable predictedCondCSV out_dir ''predicted_cond.dbf'')))"

definition join_results :: "string \<Rightarrow> string \<Rightarrow> string \<Rightarrow> unit action" where
  "join_results in_fc out_fc out_dir =
     bind (AddMessage ''Joining predicted conductivity results to the stream network...'') (\<lambda>_.
     bind (MakeTableView (out_dir @ [sep] @ ''predicted_cond.dbf'') ''predicted_cond_view'') (\<lambda>_.
     bind (MakeFeatureLayer in_fc ''in_fc_lyr'') (\<lambda>_.
     bind (FeatureClassToFeatureClass ''in_fc_lyr'' ''in_memory'' ''in_fc_tmp'') (\<lambda>_.
     bind (JoinField (''in_memory'' @ [sep] @ ''in_fc_tmp'') ''LineOID''
             ''predicted_cond_view'' ''LineOID'') (\<lambda>_.
     bind (MakeFeatureLayer (''in_memory'' @ [sep] @ ''in_fc_tmp'') ''join_fc_lyr'') (\<lambda>_.
     bind (AddMessage (''Exporting final feature class as '' @ out_fc)) (\<lambda>_.
     bind (CopyFeatures ''join_fc_lyr'' out_fc) (\<lambda>_.
     removeFields out_fc))))))))"

text \<open>The export to the project: \<open>projectXML\<close> and \<open>in_shp_name\<close> are local variables
  of \<^verbatim>\<open>main\<close> that are bound on some paths only; \<open>None\<close> stands for unbound.\<close>

definition export_project ::
  "env \<Rightarrow> ProjectXML option \<Rightarrow> string option \<Rightarrow> string \<Rightarrow> string \<Rightarrow> string \<Rightarrow> string
     \<Rightarrow> string \<Rightarrow> unit action" where
  "export_project e projectXML in_shp_name in_fc out_fc rs_dir in_fc_name out_fc_name =
     bind (AddMessage ''Exporting to Riverscapes project...'') (\<lambda>_.
     case projectXML of
       None \<Rightarrow> raise (UnboundLocalError ''projectXML'')
     | Some pxml \<Rightarrow>
        (case realIDdict pxml (rs_real_name e) of
           None \<Rightarrow> raise (KeyError (rs_real_name e))
         | Some real_id \<Rightarrow>
            (let abs_fc_path = join (getRSDirAbs e rs_dir 1 0 real_id) in_fc_name;
                 abs_out_path = join (getRSDirAbs e rs_dir 1 2 real_id) out_fc_name
             in bind (copyRSFiles in_fc abs_fc_path) (\<lambda>_.
                bind (copyRSFiles out_fc abs_out_path) (\<lambda>_.
                case in_shp_name of
                  None \<Rightarrow> raise (UnboundLocalError ''in_shp_name'')
                | Some shp \<Rightarrow>
                   (let rel_fc_path = join (getRSDirRel e 1 0 real_id) shp;
                        rel_out_path = join (getRSDirRel e 1 2 real_id) out_fc_name
                    in metadata e pxml rel_fc_path rel_out_path real_id))))))"

definition clean_up :: "string \<Rightarrow> unit action" where
  "clean_up out_dir =
     bind clear_inmemory (\<lambda>_.
     bind (Delete_management (out_dir @ [sep] @ ''predicted_cond.dbf'')) (\<lambda>_.
     bind (Delete_management (out_dir @ [sep] @ ''predicted_cond.csv'')) (\<lambda>_.
     AddMessage ''Conductivity prediction process complete!'')))"

definition out_xml_path :: "env \<Rightarrow> string \<Rightarrow> string" where
  "out_xml_path e out_fc =
     (let out_dir = dirname out_fc;
          time_stamp = strftime_YmdHM (localtime e)
      in join out_dir (''meta_predict'' @ ''_'' @ time_stamp @ ''.'' @ ''xml''))"

definition new_writer :: "env \<Rightarrow> string \<Rightarrow> string \<Rightarrow> string \<Rightarrow> MetadataWriter" where
  "new_writer e in_fc in_params out_fc =
     addParameter ''Output metadata XML'' (out_xml_path e out_fc)
       (addParameter ''Predicted conductivity feature class'' out_fc
         (addParameter ''Environmental parameter table'' in_params
           (addParameter ''Stream network polyline feature class'' in_fc
             (createRun (run_start e) (MetadataWriter_init ''Predict Conductivity'' ''0.4'')))))"

text \<open>Prediction, join and the generic metadata document (the lines of \<^verbatim>\<open>main\<close>
  from the call of the external process to \<^verbatim>\<open>writeMetadataFile\<close>).\<close>

definition predict_and_join ::
  "env \<Rightarrow> string \<Rightarrow> string \<Rightarrow> string \<Rightarrow> string \<Rightarrow> string \<Rightarrow> MetadataWriter \<Rightarrow> unit action" where
  "predict_and_join e in_fc in_params out_fc out_dir out_xml mWriter =
     bind (run_model e out_dir in_params) (\<lambda>_.
     bind (join_results in_fc out_fc out_dir) (\<lambda>_.
     (let tool_status = ''Success''
      in writeMetadataFile out_xml (finalizeRun tool_status (run_stop e) mWriter))))"

definition main :: "env \<Rightarrow> string \<Rightarrow> string \<Rightarrow> string \<Rightarrow> string \<Rightarrow> string \<Rightarrow> unit action" where
  "main e in_fc in_params out_fc rs_bool rs_dir =
     (let in_fc_dir = dirname in_fc;
          in_fc_name = basename in_fc;
          out_dir = dirname out_fc;
          out_fc_name = basename out_fc
      in bind (Describe_workspaceType in_fc_dir) (\<lambda>in_fc_type.
         let in_shp_name = (if in_fc_type = ''LocalDatabase'' then Some (in_fc_name @ ''.shp'')
                            else None);
             out_xml = out_xml_path e out_fc;
             mWriter = new_writer e in_fc in_params out_fc
         in bind (checkLineOID in_fc) (\<lambda>has_key.
            if has_key = BoolVal True then
              bind (AddMessage ''Predicting conductivity using Random Forest model in R...'') (\<lambda>_.
              let projectXML = (if rs_bool = ''true''
                                then Some (ProjectXML_init e ''predict''
                                             (rs_dir @ [sep] @ ''project.rs.xml''))
                                else None)
              in bind (predict_and_join e in_fc in_params out_fc out_dir out_xml mWriter) (\<lambda>_.
                 bind (if rs_bool = ''true''
                       then export_project e projectXML in_shp_name in_fc out_fc rs_dir
                              in_fc_name out_fc_name
                       else return ()) (\<lambda>_.
                 clean_up out_dir)))
            else
              bind (AddError ''The LineOID attribute field is missing! Cancelling process...'') (\<lambda>_.
              raise (SystemExit 0)))))"

section \<open>Relating the world before and after an action\<close>

text \<open>\<open>steps R m\<close>: whatever the outcome of the action \<open>m\<close>, normal or exceptional, the
  worlds before and after it are related by \<open>R\<close>.\<close>

definition steps :: "(world \<Rightarrow> world \<Rightarrow> bool) \<Rightarrow> 'a action \<Rightarrow> bool" where
  "steps R m = (\<forall>w. R w (snd (m w)))"

definition preorder_on_worlds :: "(world \<Rightarrow> world \<Rightarrow> bool) \<Rightarrow> bool" where
  "preorder_on_worlds R = ((\<forall>a. R a a) \<and> (\<forall>a b c. R a b \<longrightarrow> R b c \<longrightarrow> R a c))"

definition same_processes :: "world \<Rightarrow> world \<Rightarrow> bool" where
  "same_processes w w' = (processes w' = processes w)"

definition same_project :: "world \<Rightarrow> world \<Rightarrow> bool" where
  "same_project w w' = (project w' = project w)"

definition no_new_lineage :: "world \<Rightarrow> world \<Rightarrow> bool" where
  "no_new_lineage w w' =
     (\<forall>p x. project w' p = Some (ProjectFile x) \<longrightarrow> project w p = Some (ProjectFile x))"

definition messages_extend :: "world \<Rightarrow> world \<Rightarrow> bool" where
  "messages_extend w w' = (\<exists>ms. messages w' = messages w @ ms)"

definition disk_outside :: "string set \<Rightarrow> world \<Rightarrow> world \<Rightarrow> bool" where
  "disk_outside S w w' = (\<forall>p. p \<notin> S \<longrightarrow> disk w' p = disk w p)"

definition no_new_documents :: "world \<Rightarrow> world \<Rightarrow> bool" where
  "no_new_documents w w' =
     (\<forall>p m. disk w' p = Some (MetadataFile m) \<longrightarrow> disk w p = Some (MetadataFile m))"




section \<open>Example data\<close>

definition plain_net :: dataset where
  "plain_net =
     \<lparr>dataType = FeatureClass,
      dfields = [\<lparr>name = ''FID'', type = ''OID''\<rparr>, \<lparr>name = ''Shape'', type = ''Geometry''\<rparr>,
                 \<lparr>name = ''Length'', type = ''Double''\<rparr>],
      rows = [[(''FID'', IntV 0), (''Shape'', TextV ''line0''), (''Length'', RealV 12)]]\<rparr>"

definition key_net :: dataset where
  "key_net =
     \<lparr>dataType = FeatureClass,
      dfields = [\<lparr>name = ''FID'', type = ''OID''\<rparr>, \<lparr>name = ''Shape'', type = ''Geometry''\<rparr>,
                 \<lparr>name = ''LineOID'', type = ''Integer''\<rparr>, \<lparr>name = ''Length'', type = ''Double''\<rparr>],
      rows = [[(''FID'', IntV 0), (''Shape'', TextV ''line0''), (''LineOID'', IntV 1), (''Length'', RealV 12)],
              [(''FID'', IntV 1), (''Shape'', TextV ''line1''), (''LineOID'', IntV 2), (''Length'', RealV 7)],
              [(''FID'', IntV 2), (''Shape'', TextV ''line2''), (''LineOID'', IntV 3), (''Length'', RealV 9)]]\<rparr>"

definition pred_table :: dataset where
  "pred_table =
     \<lparr>dataType = Table,
      dfields = [\<lparr>name = ''LineOID'', type = ''Integer''\<rparr>, \<lparr>name = ''prdCond'', type = ''Double''\<rparr>,
                 \<lparr>name = ''error_code'', type = ''Integer''\<rparr>],
      rows = [[(''LineOID'', IntV 2), (''prdCond'', RealV 310), (''error_code'', IntV 0)],
              [(''LineOID'', IntV 1), (''prdCond'', RealV 145), (''error_code'', IntV 0)]]\<rparr>"

definition demo_world :: world where
  "demo_world =
     \<lparr>disk = [''C:/data/plain.shp'' \<mapsto> Dataset plain_net,
              ''C:/data/net.shp'' \<mapsto> Dataset key_net,
              ''C:/work/proj.gdb/net'' \<mapsto> Dataset key_net,
              ''C:/work/proj.gdb/hydro/plain'' \<mapsto> Dataset plain_net],
      in_memory = [(''old_tmp'', plain_net)],
      layers = Map.empty,
      project = Map.empty,
      workspaces = [''C:/data'' \<mapsto> ''FileSystem'', ''C:/work/proj.gdb'' \<mapsto> ''LocalDatabase''],
      feature_datasets = [''C:/work/proj.gdb/hydro''],
      messages = [],
      processes = []\<rparr>"

definition demo_env :: env where
  "demo_env =
     \<lparr>script_file = ''C:/tools/predict_cond.py'',
      rs_real_name = ''run1'',
      localtime = \<lparr>tm_year = 2016, tm_mon = 3, tm_mday = 9, tm_hour = 14, tm_min = 5\<rparr>,
      run_start = ''14:05:00'',
      run_stop = ''14:06:30'',
      condRF = (\<lambda>args w. (0, Some pred_table)),
      realizations = [''run1'' \<mapsto> ''RZ01''],
      getRSDirAbs = (\<lambda>dir a b real_id. dir @ ''/'' @ real_id @ ''/'' @ dec a @ ''_'' @ dec b),
      getRSDirRel = (\<lambda>a b real_id. real_id @ ''/'' @ dec a @ ''_'' @ dec b),
      finalize_times = (''14:05:01'', ''14:06:29''),
      getUUID = (\<lambda>n. ''uuid-'' @ dec n)\<rparr>"

text \<open>The output feature class of the run on \<open>key_net\<close>.\<close>

definition demo_out :: dataset where
  "demo_out =
     \<lparr>dataType = FeatureClass,
      dfields = [\<lparr>name = ''FID'', type = ''OID''\<rparr>, \<lparr>name = ''Shape'', type = ''Geometry''\<rparr>,
                 \<lparr>name = ''LineOID'', type = ''Integer''\<rparr>, \<lparr>name = ''prdCond'', type = ''Double''\<rparr>,
                 \<lparr>name = ''error_code'', type = ''Integer''\<rparr>],
      rows = [[(''FID'', IntV 0), (''Shape'', TextV ''line0''), (''LineOID'', IntV 1),
               (''prdCond'', RealV 145), (''error_code'', IntV 0)],
              [(''FID'', IntV 1), (''Shape'', TextV ''line1''), (''LineOID'', IntV 2),
               (''prdCond'', RealV 310), (''error_code'', IntV 0)],
              [(''FID'', IntV 2), (''Shape'', TextV ''line2''), (''LineOID'', IntV 3),
               (''prdCond'', Null), (''error_code'', Null)]]\<rparr>"

text \<open>An environment in which the external process fails: it ends with exit code 1 and
  writes nothing.\<close>

definition failing_env :: env where
  "failing_env = demo_env\<lparr>condRF := (\<lambda>args w. (1, None))\<rparr>"

section \<open>Basic facts\<close>

lemma bind_Inr: "bind m f w = (Inr y, w') \<longleftrightarrow> (\<exists>x w1. m w = (Inr x, w1) \<and> f x w1 = (Inr y, w'))"
  by (auto simp: bind_def split: prod.splits sum.splits)

lemma stepsD: "steps R m \<Longrightarrow> m w = (r, w') \<Longrightarrow> R w w'"
  by (auto simp: steps_def dest: spec[of _ w])

lemma steps_return: "preorder_on_worlds R \<Longrightarrow> steps R (return x)"
  by (simp add: steps_def return_def preorder_on_worlds_def)

lemma steps_raise: "preorder_on_worlds R \<Longrightarrow> steps R (raise x)"
  by (simp add: steps_def raise_def preorder_on_worlds_def)

lemma steps_bind:
  assumes "preorder_on_worlds R" "steps R m" "\<And>x. steps R (f x)"
  shows "steps R (bind m f)"
  unfolding steps_def
proof
  fix w
  show "R w (snd (bind m f w))"
  proof (cases "m w")
    case (Pair r w1)
    have 1: "R w w1" using assms(2) Pair by (rule stepsD)
    show ?thesis
    proof (cases r)
      case (Inl e) then show ?thesis using Pair 1 by (simp add: bind_def)
    next
      case (Inr x)
      have "R w1 (snd (f x w1))" using assms(3)[of x] by (simp add: steps_def)
      then show ?thesis using Pair Inr 1 assms(1) by (auto simp: bind_def preorder_on_worlds_def)
    qed
  qed
qed

lemma steps_delete_each:
  assumes "preorder_on_worlds R" "\<And>n. steps R (Delete_management (''IN_MEMORY'' @ [sep] @ n))"
  shows "steps R (delete_each ns)"
proof (induction ns)
  case Nil
  show ?case by (simp add: steps_return assms)
next
  case (Cons n ns)
  show ?case unfolding delete_each.simps by (intro steps_bind assms Cons)
qed

lemma steps_clear_inmemory:
  assumes "preorder_on_worlds R" "\<And>s. steps R (AddMessage s)"
    "\<And>n. steps R (Delete_management (''IN_MEMORY'' @ [sep] @ n))"
  shows "steps R clear_inmemory"
proof -
  have "steps R (bind (delete_each a) (\<lambda>_. delete_each b))" for a b
    by (intro steps_bind steps_delete_each assms)
  then have "steps R (\<lambda>w. bind (delete_each (ListFeatureClasses w)) (\<lambda>_. delete_each (ListTables w)) w)"
    by (simp add: steps_def)
  then show ?thesis
    unfolding clear_inmemory_def Let_def by (intro steps_bind assms)
qed

lemma steps_clean_up:
  assumes "preorder_on_worlds R" "\<And>s. steps R (AddMessage s)"
    "\<And>n. steps R (Delete_management (''IN_MEMORY'' @ [sep] @ n))"
    "steps R (Delete_management (out_dir @ [sep] @ ''predicted_cond.dbf''))"
    "steps R (Delete_management (out_dir @ [sep] @ ''predicted_cond.csv''))"
  shows "steps R (clean_up out_dir)"
  unfolding clean_up_def by (intro steps_bind steps_clear_inmemory assms)


lemma steps_removeFields:
  assumes "preorder_on_worlds R" "\<And>s. steps R (AddMessage s)" "\<And>a b. steps R (ListFields a b)"
    "\<And>l. steps R (DeleteField in_fc l)"
  shows "steps R (removeFields in_fc)"
  unfolding removeFields_def by (intro steps_bind assms)

lemma steps_join_results:
  assumes "preorder_on_worlds R" "\<And>s. steps R (AddMessage s)" "\<And>a b. steps R (ListFields a b)"
    "\<And>a b. steps R (MakeTableView a b)" "\<And>a b. steps R (MakeFeatureLayer a b)"
    "steps R (FeatureClassToFeatureClass ''in_fc_lyr'' ''in_memory'' ''in_fc_tmp'')"
    "steps R (JoinField (''in_memory'' @ [sep] @ ''in_fc_tmp'') ''LineOID'' ''predicted_cond_view'' ''LineOID'')"
    "steps R (CopyFeatures ''join_fc_lyr'' out_fc)"
    "\<And>l. steps R (DeleteField out_fc l)"
  shows "steps R (join_results in_fc out_fc out_dir)"
  unfolding join_results_def by (intro steps_bind steps_removeFields assms)

lemma steps_run_model:
  assumes "preorder_on_worlds R" "\<And>cmd. steps R (Popen cmd)" "\<And>process. steps R (wait e process)"
    "steps R (TableToTable (out_dir @ [sep] @ ''predicted_cond.csv'') out_dir ''predicted_cond.dbf'')"
  shows "steps R (run_model e out_dir in_params)"
  unfolding run_model_def Let_def by (intro steps_bind assms)

lemma steps_metadata:
  assumes "\<And>x. steps R (write_ProjectXML x)"
  shows "steps R (metadata e x a b c)"
  unfolding metadata_def Let_def by (simp split: prod.splits add: assms)

lemma steps_export_project:
  assumes "preorder_on_worlds R" "\<And>s. steps R (AddMessage s)" "\<And>a b. steps R (copyRSFiles a b)"
    "shp \<noteq> None \<Longrightarrow> (\<And>x. steps R (write_ProjectXML x))"
  shows "steps R (export_project e px shp a b c d f)"
  unfolding export_project_def Let_def
  by (cases shp; cases px)
     (auto split: option.splits intro!: steps_bind steps_raise steps_metadata assms)

lemma store_data_sel [simp]:
  "processes (store_data p d w) = processes w"
  "project (store_data p d w) = project w"
  "layers (store_data p d w) = layers w"
  "messages (store_data p d w) = messages w"
  "workspaces (store_data p d w) = workspaces w"
  by (simp_all add: store_data_def split: option.splits)

lemmas prim_defs = AddMessage_def AddError_def Describe_workspaceType_def ListFields_def
  MakeFeatureLayer_def MakeTableView_def FeatureClassToFeatureClass_def TableToTable_def
  CopyFeatures_def JoinField_def DeleteField_def Delete_management_def writeMetadataFile_def
  write_ProjectXML_def copyRSFiles_def

lemma same_processes_preorder: "preorder_on_worlds same_processes"
  by (simp add: preorder_on_worlds_def same_processes_def)

lemma same_processes_prims:
  "steps same_processes (AddMessage s)"
  "steps same_processes (ListFields ds wc)"
  "steps same_processes (MakeFeatureLayer a b)"
  "steps same_processes (MakeTableView a b)"
  "steps same_processes (FeatureClassToFeatureClass a b c)"
  "steps same_processes (TableToTable a b c)"
  "steps same_processes (CopyFeatures a b)"
  "steps same_processes (JoinField a b c d')"
  "steps same_processes (DeleteField a l)"
  "steps same_processes (Delete_management a)"
  "steps same_processes (writeMetadataFile a mw)"
  "steps same_processes (write_ProjectXML x)"
  "steps same_processes (copyRSFiles a b)"
  by (simp_all add: steps_def same_processes_def prim_defs Let_def
      split: option.splits prod.splits)

lemma same_processes_rest:
  "steps same_processes (join_results in_fc out_fc out_dir)"
  "steps same_processes (export_project e px shp a b c d f)"
  "steps same_processes (clean_up out_dir)"
  by (intro steps_join_results steps_export_project steps_clean_up same_processes_preorder
      same_processes_prims)+

lemma processes_bind_keep:
  assumes "\<And>x. steps same_processes (f x)"
  shows "processes (snd (bind m f w)) = processes (snd (m w))"
proof (cases "m w")
  case (Pair r w1)
  show ?thesis
  proof (cases r)
    case (Inl a) then show ?thesis using Pair by (simp add: bind_def)
  next
    case (Inr x)
    have "same_processes w1 (snd (f x w1))" using assms[of x] by (simp add: steps_def)
    then show ?thesis using Pair Inr by (simp add: bind_def same_processes_def)
  qed
qed

lemma bind_assoc: "bind (bind m f) g = bind m (\<lambda>x. bind (f x) g)"
  by (rule ext) (simp add: bind_def split: prod.splits sum.splits)

lemma Popen_then_wait:
  "bind (Popen [a, b, c, d, f]) (wait e) w =
     (Inr (fst (condRF e [c, d, f] (w\<lparr>processes := processes w @ [([a, b, c, d, f], Running)]\<rparr>))),
      (case snd (condRF e [c, d, f] (w\<lparr>processes := processes w @ [([a, b, c, d, f], Running)]\<rparr>)) of
         None \<Rightarrow> w\<lparr>processes := processes w @ [([a, b, c, d, f], Terminated)]\<rparr>
       | Some t \<Rightarrow> w\<lparr>processes := processes w @ [([a, b, c, d, f], Terminated)],
                      disk := (disk w)(d @ [sep] @ ''predicted_cond.csv'' \<mapsto> Dataset t)\<rparr>))"
  by (cases "condRF e [c, d, f] (w\<lparr>processes := processes w @ [([a, b, c, d, f], Running)]\<rparr>)")
     (simp add: bind_def Popen_def wait_def split: option.splits)

lemma run_model_eq:
  "run_model e out_dir in_params =
     bind (bind (Popen [''Rscript'', join (dirname (script_file e)) ''condRF.R'',
                        join (dirname (script_file e)) ''rf17bCnd9.rdata'', out_dir, in_params])
                (wait e))
          (\<lambda>returncode. TableToTable (out_dir @ [sep] @ ''predicted_cond.csv'') out_dir
                           ''predicted_cond.dbf'')"
  by (simp add: run_model_def Let_def bind_assoc)

lemma processes_Popen_then_wait:
  "processes (snd (bind (Popen [a, b, c, d, f]) (wait e) w)) =
     processes w @ [([a, b, c, d, f], Terminated)]"
  by (simp add: Popen_then_wait split: option.splits)

lemma processes_run_model:
  "processes (snd (run_model e out_dir in_params w)) =
     processes w @ [([''Rscript'', join (dirname (script_file e)) ''condRF.R'',
                      join (dirname (script_file e)) ''rf17bCnd9.rdata'', out_dir, in_params],
                     Terminated)]"
  unfolding run_model_eq
  by (subst processes_bind_keep) (simp_all add: same_processes_prims processes_Popen_then_wait)

lemma processes_predict_and_join:
  "processes (snd (predict_and_join e in_fc in_params out_fc out_dir out_xml mw w)) =
     processes w @ [([''Rscript'', join (dirname (script_file e)) ''condRF.R'',
                      join (dirname (script_file e)) ''rf17bCnd9.rdata'', out_dir, in_params],
                     Terminated)]"
  unfolding predict_and_join_def Let_def
  by (subst processes_bind_keep)
     (auto intro!: steps_bind same_processes_preorder same_processes_rest same_processes_prims
           simp: processes_run_model)

lemma main_passed:
  assumes "workspaces w (dirname in_fc) = Some t" and "checkLineOID in_fc w = (Inr (BoolVal True), w)"
  shows "main e in_fc in_params out_fc rs_bool rs_dir w =
     bind (predict_and_join e in_fc in_params out_fc (dirname out_fc) (out_xml_path e out_fc)
             (new_writer e in_fc in_params out_fc)) (\<lambda>_.
     bind (if rs_bool = ''true''
           then export_project e (Some (ProjectXML_init e ''predict'' (rs_dir @ [sep] @ ''project.rs.xml'')))
                  (if t = ''LocalDatabase'' then Some (basename in_fc @ ''.shp'') else None)
                  in_fc out_fc rs_dir (basename in_fc) (basename out_fc)
           else return ()) (\<lambda>_.
     clean_up (dirname out_fc)))
       (w\<lparr>messages := messages w @ [Message ''Predicting conductivity using Random Forest model in R...'']\<rparr>)"
  using assms
  by (simp add: main_def Let_def bind_def Describe_workspaceType_def AddMessage_def)

lemma run_model_rc:
  "run_model (e\<lparr>condRF := \<lambda>a v. (rc a v, snd (condRF e a v))\<rparr>) out_dir in_params w = run_model e out_dir in_params w"
  unfolding run_model_eq
  by (subst (1 2) bind_def) (simp add: Popen_then_wait)

lemma main_rc:
  "main (e\<lparr>condRF := \<lambda>a v. (rc a v, snd (condRF e a v))\<rparr>) in_fc in_params out_fc rs_bool rs_dir = main e in_fc in_params out_fc rs_bool rs_dir"
proof -
  let ?e = "e\<lparr>condRF := \<lambda>a v. (rc a v, snd (condRF e a v))\<rparr>"
  have 1: "run_model ?e = run_model e" by (intro ext run_model_rc)
  have 2: "export_project ?e = export_project e"
    by (intro ext) (simp add: export_project_def metadata_def Let_def cong: option.case_cong)
  have 3: "out_xml_path ?e = out_xml_path e" "new_writer ?e = new_writer e"
    by (intro ext, simp add: out_xml_path_def new_writer_def)+
  have 4: "predict_and_join ?e = predict_and_join e"
    by (intro ext) (simp add: predict_and_join_def 1)
  show ?thesis
    by (simp add: main_def 2 3 4 ProjectXML_init_def cong: if_cong)
qed

lemma lookup_data_cong:
  "layers w' = layers w \<Longrightarrow> in_memory w' = in_memory w \<Longrightarrow> disk w' = disk w \<Longrightarrow>
   lookup_data w' p = lookup_data w p"
  unfolding lookup_data_def source_path_def Let_def by (simp cong: option.case_cong)

lemma lookup_data_upd [simp]:
  "lookup_data (w\<lparr>processes := x\<rparr>) p = lookup_data w p"
  "lookup_data (w\<lparr>messages := y\<rparr>) p = lookup_data w p"
  "lookup_data (w\<lparr>project := z\<rparr>) p = lookup_data w p"
  by (rule lookup_data_cong; simp)+

lemma run_model_no_file:
  assumes "snd (condRF e [join (dirname (script_file e)) ''rf17bCnd9.rdata'', out_dir, in_params]
             (w\<lparr>processes := processes w @
                 [([''Rscript'', join (dirname (script_file e)) ''condRF.R'',
                    join (dirname (script_file e)) ''rf17bCnd9.rdata'', out_dir, in_params], Running)]\<rparr>))
           = None"
      and "lookup_data w (out_dir @ [sep] @ ''predicted_cond.csv'') = None"
  shows "run_model e out_dir in_params w =
           (Inl (ExecuteError (out_dir @ [sep] @ ''predicted_cond.csv'')),
            w\<lparr>processes := processes w @
                 [([''Rscript'', join (dirname (script_file e)) ''condRF.R'',
                    join (dirname (script_file e)) ''rf17bCnd9.rdata'', out_dir, in_params],
                   Terminated)]\<rparr>)"
proof -
  define cmd where "cmd = [''Rscript'', join (dirname (script_file e)) ''condRF.R'',
                   join (dirname (script_file e)) ''rf17bCnd9.rdata'', out_dir, in_params]"
  define csv where "csv = out_dir @ [sep] @ ''predicted_cond.csv''"
  obtain rc where rc: "bind (Popen cmd) (wait e) w = (Inr rc, w\<lparr>processes := processes w @ [(cmd, Terminated)]\<rparr>)"
    unfolding cmd_def using assms(1) by (simp add: Popen_then_wait)
  have "lookup_data (w\<lparr>processes := processes w @ [(cmd, Terminated)]\<rparr>) csv = None"
    using assms(2) unfolding csv_def by simp
  then have "TableToTable csv out_dir ''predicted_cond.dbf'' (w\<lparr>processes := processes w @ [(cmd, Terminated)]\<rparr>)
               = (Inl (ExecuteError csv), w\<lparr>processes := processes w @ [(cmd, Terminated)]\<rparr>)"
    by (simp add: TableToTable_def)
  then have "bind (bind (Popen cmd) (wait e)) (\<lambda>returncode. TableToTable csv out_dir ''predicted_cond.dbf'') w
               = (Inl (ExecuteError csv), w\<lparr>processes := processes w @ [(cmd, Terminated)]\<rparr>)"
    by (subst bind_def) (simp only: rc sum.case prod.case)
  then show ?thesis
    unfolding run_model_eq cmd_def csv_def by simp
qed

lemma demo_dirs:
  "dirname ''C:/data/net.shp'' = ''C:/data''"
  "dirname ''C:/data/plain.shp'' = ''C:/data''"
  "dirname ''C:/work/proj.gdb/net'' = ''C:/work/proj.gdb''"
  "dirname ''C:/out/cond.shp'' = ''C:/out''"
  "dirname ''C:/tools/predict_cond.py'' = ''C:/tools''"
  by code_simp+

section \<open>Properties of checkLineOID\<close>

lemma in_memory_name_plain: "in_memory_name ''C:/data/plain.shp'' = None"
  by (simp add: in_memory_name_def lower_def)

lemma plain_lookup: "lookup_data demo_world ''C:/data/plain.shp'' = Some plain_net"
  by (simp add: lookup_data_def source_path_def is_path_def is_sep_def in_memory_name_plain
      demo_world_def)

lemma no_star_wild_match: "wild_match p s \<Longrightarrow> CHR ''*'' \<notin> set p \<Longrightarrow> map lower s = map lower p"
  by (induction p s rule: wild_match.induct) auto

lemma checkLineOID_loop_True: "checkLineOID_loop fs = BoolVal True \<Longrightarrow> \<exists>f\<in>set fs. name f = ''LineOID''"
  by (cases fs) (auto simp: fieldName_def split: if_splits)

lemma checkLineOID_world: "checkLineOID in_fc w = (r, w') \<Longrightarrow> w' = w"
  by (auto simp: checkLineOID_def bind_def return_def ListFields_def split: option.splits)

lemma checkLineOID_True:
  "checkLineOID in_fc w = (Inr (BoolVal True), w') \<Longrightarrow>
     \<exists>d. lookup_data w in_fc = Some d \<and> ''LineOID'' \<in> set (map name (dfields d))"
  by (auto simp: checkLineOID_def bind_def return_def ListFields_def split: option.splits
      dest!: checkLineOID_loop_True intro: rev_image_eqI)

lemma checkLineOID_missing:
  assumes "lookup_data w in_fc = Some d" "''LineOID'' \<notin> set (map name (dfields d))"
  shows "\<exists>v. checkLineOID in_fc w = (Inr v, w) \<and> v \<noteq> BoolVal True"
proof -
  obtain r w' where r: "checkLineOID in_fc w = (r, w')" by (cases "checkLineOID in_fc w")
  then have "w' = w" by (rule checkLineOID_world)
  moreover obtain v where "r = Inr v" using r assms(1)
    by (auto simp: checkLineOID_def bind_def return_def ListFields_def)
  moreover have "v \<noteq> BoolVal True" using checkLineOID_True[of in_fc w w'] r assms calculation by auto
  ultimately show ?thesis using r by auto
qed


text \<open>
  C2.  The claim: checkLineOID returns the boolean true if and only if the feature
  collection has a field named LineOID, and the boolean false otherwise.  On a feature
  class without such a field the list of fields is empty, the loop body never runs, and
  the function returns \<^verbatim>\<open>None\<close>, not the boolean false its docstring promises.
\<close>

theorem checkLineOID_missing_field_returns_None:
  "checkLineOID ''C:/data/plain.shp'' demo_world = (Inr NoneVal, demo_world)"
  by (simp add: checkLineOID_def bind_def return_def ListFields_def plain_lookup
      plain_net_def fieldName_def lower_def)

section \<open>Runs of main that return\<close>

lemma steps_if: "(c \<Longrightarrow> steps R a) \<Longrightarrow> (\<not> c \<Longrightarrow> steps R b) \<Longrightarrow> steps R (if c then a else b)"
  by simp

lemma steps_predict_and_join:
  assumes "preorder_on_worlds R" "steps R (run_model e out_dir in_params)"
    "steps R (join_results in_fc out_fc out_dir)" "\<And>m. steps R (writeMetadataFile out_xml m)"
  shows "steps R (predict_and_join e in_fc in_params out_fc out_dir out_xml mw)"
  unfolding predict_and_join_def Let_def by (intro steps_bind assms)


lemma same_project_preorder: "preorder_on_worlds same_project"
  by (simp add: preorder_on_worlds_def same_project_def)

lemma same_project_prims:
  "steps same_project (AddMessage s)"
  "steps same_project (AddError s)"
  "steps same_project (Describe_workspaceType dir)"
  "steps same_project (ListFields ds wc)"
  "steps same_project (MakeFeatureLayer a b)"
  "steps same_project (MakeTableView a b)"
  "steps same_project (FeatureClassToFeatureClass a b c)"
  "steps same_project (TableToTable a b c)"
  "steps same_project (CopyFeatures a b)"
  "steps same_project (JoinField a b c d')"
  "steps same_project (DeleteField a l)"
  "steps same_project (Delete_management a)"
  "steps same_project (writeMetadataFile a mw)"
  by (simp_all add: steps_def same_project_def prim_defs Let_def
      split: option.splits prod.splits)

lemma same_project_Popen_wait:
  "steps same_project (Popen cmd)"
  "steps same_project (wait e process)"
  by (simp_all add: steps_def same_project_def Popen_def wait_def Let_def
      split: list.splits option.splits prod.splits proc_state.splits)

lemma same_project_blocks:
  "steps same_project (predict_and_join e in_fc in_params out_fc out_dir out_xml mw)"
  "steps same_project (clean_up out_dir)"
  by (intro steps_predict_and_join steps_run_model steps_join_results steps_clean_up
      same_project_preorder same_project_prims same_project_Popen_wait)+


lemma main_Inr:
  assumes "main e in_fc in_params out_fc rs_bool rs_dir w = (Inr (), w')"
  obtains t w3 w4 where
    "workspaces w (dirname in_fc) = Some t"
    "checkLineOID in_fc w = (Inr (BoolVal True), w)"
    "predict_and_join e in_fc in_params out_fc (dirname out_fc) (out_xml_path e out_fc)
       (new_writer e in_fc in_params out_fc)
       (w\<lparr>messages := messages w @ [Message ''Predicting conductivity using Random Forest model in R...'']\<rparr>)
     = (Inr (), w3)"
    "(if rs_bool = ''true''
      then export_project e (Some (ProjectXML_init e ''predict'' (rs_dir @ [sep] @ ''project.rs.xml'')))
             (if t = ''LocalDatabase'' then Some (basename in_fc @ ''.shp'') else None)
             in_fc out_fc rs_dir (basename in_fc) (basename out_fc)
      else return ()) w3 = (Inr (), w4)"
    "clean_up (dirname out_fc) w4 = (Inr (), w')"
proof -
  obtain t where t: "workspaces w (dirname in_fc) = Some t"
    using assms by (cases "workspaces w (dirname in_fc)")
      (simp_all add: main_def Let_def bind_def Describe_workspaceType_def split: if_splits)
  obtain r wc where c: "checkLineOID in_fc w = (r, wc)" by (cases "checkLineOID in_fc w")
  then have wc: "wc = w" by (rule checkLineOID_world)
  have r: "r = Inr (BoolVal True)"
  proof (rule ccontr)
    assume n: "r \<noteq> Inr (BoolVal True)"
    have "fst (main e in_fc in_params out_fc rs_bool rs_dir w) \<noteq> Inr ()"
      using t c wc n
      by (cases r) (simp_all add: main_def Let_def bind_def Describe_workspaceType_def
          AddError_def raise_def)
    then show False using assms by simp
  qed
  have ck: "checkLineOID in_fc w = (Inr (BoolVal True), w)" using c wc r by simp
  from assms[unfolded main_passed[OF t ck]] 
  obtain w3 w4 where
    "predict_and_join e in_fc in_params out_fc (dirname out_fc) (out_xml_path e out_fc)
       (new_writer e in_fc in_params out_fc)
       (w\<lparr>messages := messages w @ [Message ''Predicting conductivity using Random Forest model in R...'']\<rparr>)
     = (Inr (), w3)"
    "(if rs_bool = ''true''
      then export_project e (Some (ProjectXML_init e ''predict'' (rs_dir @ [sep] @ ''project.rs.xml'')))
             (if t = ''LocalDatabase'' then Some (basename in_fc @ ''.shp'') else None)
             in_fc out_fc rs_dir (basename in_fc) (basename out_fc)
      else return ()) w3 = (Inr (), w4)"
    "clean_up (dirname out_fc) w4 = (Inr (), w')"
    unfolding bind_Inr by auto
  with t ck show ?thesis by (rule that)
qed


lemma export_project_unbound:
  "export_project e px None in_fc out_fc rs_dir n1 n2 w \<noteq> (Inr (), w')"
  unfolding export_project_def Let_def
  by (auto simp: bind_Inr raise_def split: option.splits)

section \<open>The run without the join key\<close>

lemma main_without_key:
  assumes "lookup_data w in_fc = Some d"
      and "''LineOID'' \<notin> set (map name (dfields d))"
      and "workspaces w (dirname in_fc) = Some t"
  shows "main e in_fc in_params out_fc rs_bool rs_dir w =
           (Inl (SystemExit 0),
            w\<lparr>messages := messages w @
                 [ErrorMessage ''The LineOID attribute field is missing! Cancelling process...'']\<rparr>)"
proof -
  obtain v where v: "checkLineOID in_fc w = (Inr v, w)" "v \<noteq> BoolVal True"
    using checkLineOID_missing[OF assms(1,2)] by blast
  show ?thesis
    using v assms(3)
    by (simp add: main_def Let_def bind_def Describe_workspaceType_def AddError_def raise_def)
qed

lemma demo_dataset_lookup:
  "lookup_data demo_world ''C:/work/proj.gdb/hydro/plain'' = Some plain_net"
  by (simp add: lookup_data_def source_path_def is_path_def is_sep_def in_memory_name_def
      lower_def demo_world_def)

lemma demo_dataset_dirname:
  "dirname ''C:/work/proj.gdb/hydro/plain'' = ''C:/work/proj.gdb/hydro''"
  by code_simp

text \<open>
  C1.  The claim: for every input feature collection without a field named LineOID,
  \<open>main\<close> joins nothing, writes nothing, emits the error message and ends with a clean
  exit of status 0, not with an uncaught exception.  As stated it fails: \<open>main\<close> asks for
  the workspace type of the directory of the input before it checks the key, and a
  feature class inside a feature dataset has a directory that is no workspace.  The run
  then ends with an uncaught \<^verbatim>\<open>AttributeError\<close>, before any message.
\<close>

theorem main_missing_key_in_feature_dataset_counterexample:
  "lookup_data demo_world ''C:/work/proj.gdb/hydro/plain'' = Some plain_net
   \<and> ''LineOID'' \<notin> set (map name (dfields plain_net))
   \<and> main demo_env ''C:/work/proj.gdb/hydro/plain'' ''C:/data/ws_cond_param.dbf''
         ''C:/out/cond.shp'' ''false'' ''C:/proj'' demo_world =
       (Inl (AttributeError ''workspaceType''), demo_world)
   \<and> AttributeError ''workspaceType'' \<noteq> SystemExit 0"
proof -
  have "''LineOID'' \<notin> set (map name (dfields plain_net))"
    by (simp add: plain_net_def)
  moreover have "main demo_env ''C:/work/proj.gdb/hydro/plain'' ''C:/data/ws_cond_param.dbf''
         ''C:/out/cond.shp'' ''false'' ''C:/proj'' demo_world =
       (Inl (AttributeError ''workspaceType''), demo_world)"
    by (simp add: main_def Let_def bind_def Describe_workspaceType_def demo_dataset_dirname
        demo_world_def)
  ultimately show ?thesis using demo_dataset_lookup by simp
qed

text \<open>
  C1, amended.  When the input feature class has no field named LineOID and lies in a
  directory whose workspace type the toolkit can report, \<open>main\<close> ends with
  \<^verbatim>\<open>SystemExit(0)\<close>, and the world it leaves differs from the one it found by the
  error message only: nothing was joined, no output feature class and no metadata
  document was written.
\<close>

theorem main_missing_key:
  assumes "lookup_data w in_fc = Some d"
      and "''LineOID'' \<notin> set (map name (dfields d))"
      and "workspaces w (dirname in_fc) = Some t"
  shows "main e in_fc in_params out_fc rs_bool rs_dir w =
           (Inl (SystemExit 0),
            w\<lparr>messages := messages w @
                 [ErrorMessage ''The LineOID attribute field is missing! Cancelling process...'']\<rparr>)"
  by (rule main_without_key[OF assms])

theorem main_missing_key_witness:
  "lookup_data demo_world ''C:/data/plain.shp'' = Some plain_net
   \<and> ''LineOID'' \<notin> set (map name (dfields plain_net))
   \<and> workspaces demo_world (dirname ''C:/data/plain.shp'') = Some ''FileSystem''
   \<and> main demo_env ''C:/data/plain.shp'' ''C:/data/ws_cond_param.dbf'' ''C:/out/cond.shp''
         ''false'' ''C:/proj'' demo_world =
       (Inl (SystemExit 0),
        demo_world\<lparr>messages := messages demo_world @
          [ErrorMessage ''The LineOID attribute field is missing! Cancelling process...'']\<rparr>)"
proof -
  have h2: "''LineOID'' \<notin> set (map name (dfields plain_net))"
    by (simp add: plain_net_def)
  have h3: "workspaces demo_world (dirname ''C:/data/plain.shp'') = Some ''FileSystem''"
    by (simp add: demo_dirs demo_world_def)
  from main_missing_key[OF plain_lookup h2 h3] plain_lookup h2 h3
  show ?thesis by blast
qed

section \<open>The call of the external scoring process\<close>

lemma messages_extend_preorder: "preorder_on_worlds messages_extend"
  by (auto simp: preorder_on_worlds_def messages_extend_def)

lemma messages_extend_prims:
  "steps messages_extend (AddMessage s)"
  "steps messages_extend (ListFields ds wc)"
  "steps messages_extend (MakeFeatureLayer a b)"
  "steps messages_extend (MakeTableView a b)"
  "steps messages_extend (FeatureClassToFeatureClass a b c)"
  "steps messages_extend (TableToTable a b c)"
  "steps messages_extend (CopyFeatures a b)"
  "steps messages_extend (JoinField a b c d')"
  "steps messages_extend (DeleteField a l)"
  "steps messages_extend (Delete_management a)"
  "steps messages_extend (writeMetadataFile a mw)"
  "steps messages_extend (write_ProjectXML x)"
  "steps messages_extend (copyRSFiles a b)"
  by (simp_all add: steps_def messages_extend_def prim_defs Let_def
      split: option.splits prod.splits)

lemma messages_extend_blocks:
  "steps messages_extend (removeFields out_fc)"
  "steps messages_extend (export_project e px shp a b c d f)"
  "steps messages_extend (clean_up out_dir)"
  by (intro steps_removeFields steps_export_project steps_clean_up messages_extend_preorder
      messages_extend_prims)+

lemma snd_bind_Inr: "m w = (Inr x, w1) \<Longrightarrow> snd (bind m f w) = snd (f x w1)"
  by (simp add: bind_def)

lemma messages_after_AddMessage:
  assumes "\<And>x. steps messages_extend (k x)"
  shows "\<exists>ms. messages (snd (bind (AddMessage s) k w)) = messages w @ [Message s] @ ms"
proof -
  have "messages_extend (w\<lparr>messages := messages w @ [Message s]\<rparr>)
          (snd (k () (w\<lparr>messages := messages w @ [Message s]\<rparr>)))"
    using assms[of "()"] by (simp add: steps_def)
  then show ?thesis
    by (simp add: bind_def AddMessage_def messages_extend_def)
qed

lemma lookup_store_data_path: "is_path p \<Longrightarrow> lookup_data (store_data p d w) p = Some d"
  by (cases "in_memory_name p")
     (simp_all add: lookup_data_def source_path_def store_data_def AList.update_conv')

lemma is_path_sep [simp]: "is_path (a @ [sep] @ b)"
  by (simp add: is_path_def sep_def is_sep_def)

lemma run_model_file_written:
  assumes "snd (condRF e [join (dirname (script_file e)) ''rf17bCnd9.rdata'', out_dir, in_params]
             (w\<lparr>processes := processes w @
                 [([''Rscript'', join (dirname (script_file e)) ''condRF.R'',
                    join (dirname (script_file e)) ''rf17bCnd9.rdata'', out_dir, in_params], Running)]\<rparr>))
           = Some t"
      and "in_memory_name (out_dir @ [sep] @ ''predicted_cond.csv'') = None"
  shows "\<exists>w2. run_model e out_dir in_params w = (Inr (), w2)
              \<and> lookup_data w2 (out_dir @ [sep] @ ''predicted_cond.dbf'') = Some (t\<lparr>dataType := Table\<rparr>)
              \<and> messages w2 = messages w"
proof -
  define cmd where "cmd = [''Rscript'', join (dirname (script_file e)) ''condRF.R'',
                   join (dirname (script_file e)) ''rf17bCnd9.rdata'', out_dir, in_params]"
  define csv where "csv = out_dir @ [sep] @ ''predicted_cond.csv''"
  define wq where "wq = w\<lparr>processes := processes w @ [(cmd, Terminated)],
                          disk := (disk w)(csv \<mapsto> Dataset t)\<rparr>"
  obtain rc where rc: "bind (Popen cmd) (wait e) w = (Inr rc, wq)"
    unfolding cmd_def wq_def csv_def using assms(1) by (simp add: Popen_then_wait)
  have ip: "is_path csv" by (simp only: csv_def is_path_sep)
  have im: "in_memory_name csv = None" using assms(2) by (simp only: csv_def)
  have "lookup_data wq csv = Some t"
    by (simp add: lookup_data_def source_path_def ip im wq_def)
  then have tt: "TableToTable csv out_dir ''predicted_cond.dbf'' wq
               = (Inr (), store_data (out_dir @ [sep] @ ''predicted_cond.dbf'') (t\<lparr>dataType := Table\<rparr>) wq)"
    by (simp add: TableToTable_def)
  have "bind (bind (Popen cmd) (wait e)) (\<lambda>returncode. TableToTable csv out_dir ''predicted_cond.dbf'') w
               = (Inr (), store_data (out_dir @ [sep] @ ''predicted_cond.dbf'') (t\<lparr>dataType := Table\<rparr>) wq)"
    by (subst bind_def) (simp only: rc tt sum.case prod.case)
  then have "run_model e out_dir in_params w =
      (Inr (), store_data (out_dir @ [sep] @ ''predicted_cond.dbf'') (t\<lparr>dataType := Table\<rparr>) wq)"
    unfolding run_model_eq cmd_def csv_def by simp
  moreover have "messages (store_data (out_dir @ [sep] @ ''predicted_cond.dbf'') (t\<lparr>dataType := Table\<rparr>) wq)
      = messages w" by (simp add: wq_def)
  moreover have "lookup_data (store_data (out_dir @ [sep] @ ''predicted_cond.dbf'') (t\<lparr>dataType := Table\<rparr>) wq)
      (out_dir @ [sep] @ ''predicted_cond.dbf'') = Some (t\<lparr>dataType := Table\<rparr>)"
    by (rule lookup_store_data_path[OF is_path_sep])
  ultimately show ?thesis by blast
qed

lemma steps_join_tail:
  "steps messages_extend
     (bind (MakeTableView (out_dir @ [sep] @ ''predicted_cond.dbf'') ''predicted_cond_view'') (\<lambda>_.
      bind (MakeFeatureLayer in_fc ''in_fc_lyr'') (\<lambda>_.
      bind (FeatureClassToFeatureClass ''in_fc_lyr'' ''in_memory'' ''in_fc_tmp'') (\<lambda>_.
      bind (JoinField (''in_memory'' @ [sep] @ ''in_fc_tmp'') ''LineOID''
             ''predicted_cond_view'' ''LineOID'') (\<lambda>_.
      bind (MakeFeatureLayer (''in_memory'' @ [sep] @ ''in_fc_tmp'') ''join_fc_lyr'') (\<lambda>_.
      bind (AddMessage (''Exporting final feature class as '' @ out_fc)) (\<lambda>_.
      bind (CopyFeatures ''join_fc_lyr'' out_fc) (\<lambda>_.
      removeFields out_fc))))))))"
  by (intro steps_bind messages_extend_preorder messages_extend_prims messages_extend_blocks)

lemma main_proceeds_to_join:
  assumes "workspaces w (dirname in_fc) = Some t0"
      and "checkLineOID in_fc w = (Inr (BoolVal True), w)"
      and "run_model e (dirname out_fc) in_params
             (w\<lparr>messages := messages w @
                [Message ''Predicting conductivity using Random Forest model in R...'']\<rparr>) = (Inr (), w2)"
      and "messages w2 = messages w @ [Message ''Predicting conductivity using Random Forest model in R...'']"
  shows "\<exists>ms. messages (snd (main e in_fc in_params out_fc rs_bool rs_dir w)) =
           messages w @ [Message ''Predicting conductivity using Random Forest model in R...'',
                         Message ''Joining predicted conductivity results to the stream network...'']
             @ ms"
proof -
  define REST where "REST = (\<lambda>u::unit.
     bind (if rs_bool = ''true''
           then export_project e (Some (ProjectXML_init e ''predict'' (rs_dir @ [sep] @ ''project.rs.xml'')))
                  (if t0 = ''LocalDatabase'' then Some (basename in_fc @ ''.shp'') else None)
                  in_fc out_fc rs_dir (basename in_fc) (basename out_fc)
           else return ()) (\<lambda>_.
     clean_up (dirname out_fc)))"
  define WR where "WR = (\<lambda>u::unit. writeMetadataFile (out_xml_path e out_fc)
        (finalizeRun ''Success'' (run_stop e) (new_writer e in_fc in_params out_fc)))"
  have rest: "steps messages_extend (REST u)" for u
    unfolding REST_def
    by (intro steps_bind steps_if steps_return messages_extend_preorder messages_extend_blocks)
  have wr: "steps messages_extend (WR u)" for u
    unfolding WR_def by (rule messages_extend_prims)
  have "main e in_fc in_params out_fc rs_bool rs_dir w =
     bind (run_model e (dirname out_fc) in_params) (\<lambda>_.
       bind (join_results in_fc out_fc (dirname out_fc)) (\<lambda>_. bind (WR ()) REST))
       (w\<lparr>messages := messages w @ [Message ''Predicting conductivity using Random Forest model in R...'']\<rparr>)"
    unfolding main_passed[OF assms(1,2)] predict_and_join_def Let_def REST_def WR_def
    by (simp add: bind_assoc)
  also have "\<dots> = bind (join_results in_fc out_fc (dirname out_fc)) (\<lambda>_. bind (WR ()) REST) w2"
    by (subst bind_def) (simp only: assms(3) sum.case prod.case)
  finally have "snd (main e in_fc in_params out_fc rs_bool rs_dir w) =
      snd (bind (join_results in_fc out_fc (dirname out_fc)) (\<lambda>_. bind (WR ()) REST) w2)"
    by (rule arg_cong)
  moreover have "\<exists>ms. messages (snd (bind (join_results in_fc out_fc (dirname out_fc)) (\<lambda>_. bind (WR ()) REST) w2))
      = messages w2 @ [Message ''Joining predicted conductivity results to the stream network...''] @ ms"
    unfolding join_results_def bind_assoc
    by (rule messages_after_AddMessage)
       (intro steps_bind messages_extend_preorder messages_extend_prims messages_extend_blocks rest wr)
  ultimately show ?thesis using assms(4) by simp
qed

lemma processes_main_passed:
  assumes "workspaces w (dirname in_fc) = Some t0"
      and "checkLineOID in_fc w = (Inr (BoolVal True), w)"
  shows "processes (snd (main e in_fc in_params out_fc rs_bool rs_dir w)) =
           processes w @ [([''Rscript'', join (dirname (script_file e)) ''condRF.R'',
                            join (dirname (script_file e)) ''rf17bCnd9.rdata'', dirname out_fc, in_params],
                           Terminated)]"
proof -
  have k: "steps same_processes (bind (if rs_bool = ''true'' then X else return ()) (\<lambda>_. clean_up (dirname out_fc)))"
    if "steps same_processes X" for X
    using that by (cases "rs_bool = ''true''")
      (simp_all add: steps_bind steps_return same_processes_preorder same_processes_rest)
  show ?thesis
    unfolding main_passed[OF assms]
    apply (subst processes_bind_keep)
     apply (rule k)
     apply (rule same_processes_rest)
    apply (simp add: processes_predict_and_join)
    done
qed

lemma main_no_file:
  assumes "workspaces w (dirname in_fc) = Some t0"
      and "checkLineOID in_fc w = (Inr (BoolVal True), w)"
      and a: "snd (condRF e [join (dirname (script_file e)) ''rf17bCnd9.rdata'', dirname out_fc, in_params]
                 (w\<lparr>messages := messages w @
                      [Message ''Predicting conductivity using Random Forest model in R...''],
                    processes := processes w @
                      [([''Rscript'', join (dirname (script_file e)) ''condRF.R'',
                         join (dirname (script_file e)) ''rf17bCnd9.rdata'', dirname out_fc, in_params],
                        Running)]\<rparr>)) = None"
      and b: "lookup_data w (dirname out_fc @ [sep] @ ''predicted_cond.csv'') = None"
  shows "main e in_fc in_params out_fc rs_bool rs_dir w =
                  (Inl (ExecuteError (dirname out_fc @ [sep] @ ''predicted_cond.csv'')),
                   w\<lparr>messages := messages w @
                        [Message ''Predicting conductivity using Random Forest model in R...''],
                      processes := processes w @
                        [([''Rscript'', join (dirname (script_file e)) ''condRF.R'',
                           join (dirname (script_file e)) ''rf17bCnd9.rdata'', dirname out_fc, in_params],
                          Terminated)]\<rparr>)"
proof -
  define w1 where "w1 = w\<lparr>messages := messages w @
                      [Message ''Predicting conductivity using Random Forest model in R...'']\<rparr>"
  have l: "lookup_data w1 (dirname out_fc @ [sep] @ ''predicted_cond.csv'') = None"
    using b by (simp add: w1_def)
  have a': "snd (condRF e [join (dirname (script_file e)) ''rf17bCnd9.rdata'', dirname out_fc, in_params]
                 (w1\<lparr>processes := processes w1 @
                      [([''Rscript'', join (dirname (script_file e)) ''condRF.R'',
                         join (dirname (script_file e)) ''rf17bCnd9.rdata'', dirname out_fc, in_params],
                        Running)]\<rparr>)) = None"
    using a by (simp add: w1_def)
  from run_model_no_file[OF a' l]
  have "predict_and_join e in_fc in_params out_fc (dirname out_fc) (out_xml_path e out_fc)
             (new_writer e in_fc in_params out_fc) w1 =
        (Inl (ExecuteError (dirname out_fc @ [sep] @ ''predicted_cond.csv'')),
            w1\<lparr>processes := processes w1 @
                 [([''Rscript'', join (dirname (script_file e)) ''condRF.R'',
                    join (dirname (script_file e)) ''rf17bCnd9.rdata'', dirname out_fc, in_params],
                   Terminated)]\<rparr>)"
    by (simp only: predict_and_join_def bind_def sum.case prod.case)
  then show ?thesis
    unfolding main_passed[OF assms(1,2)] w1_def[symmetric]
    by (simp only: bind_def sum.case prod.case) (simp add: w1_def)
qed

lemma main_file_written:
  assumes "workspaces w (dirname in_fc) = Some t0"
      and "checkLineOID in_fc w = (Inr (BoolVal True), w)"
      and a: "snd (condRF e [join (dirname (script_file e)) ''rf17bCnd9.rdata'', dirname out_fc, in_params]
                 (w\<lparr>messages := messages w @
                      [Message ''Predicting conductivity using Random Forest model in R...''],
                    processes := processes w @
                      [([''Rscript'', join (dirname (script_file e)) ''condRF.R'',
                         join (dirname (script_file e)) ''rf17bCnd9.rdata'', dirname out_fc, in_params],
                        Running)]\<rparr>)) = Some t"
      and b: "in_memory_name (dirname out_fc @ [sep] @ ''predicted_cond.csv'') = None"
  shows "(\<exists>w2. run_model e (dirname out_fc) in_params
                 (w\<lparr>messages := messages w @
                    [Message ''Predicting conductivity using Random Forest model in R...'']\<rparr>) = (Inr (), w2)
              \<and> lookup_data w2 (dirname out_fc @ [sep] @ ''predicted_cond.dbf'') = Some (t\<lparr>dataType := Table\<rparr>))
       \<and> (\<exists>ms. messages (snd (main e in_fc in_params out_fc rs_bool rs_dir w)) =
             messages w @ [Message ''Predicting conductivity using Random Forest model in R...'',
                           Message ''Joining predicted conductivity results to the stream network...'']
               @ ms)"
proof -
  define w1 where "w1 = w\<lparr>messages := messages w @
                      [Message ''Predicting conductivity using Random Forest model in R...'']\<rparr>"
  have a': "snd (condRF e [join (dirname (script_file e)) ''rf17bCnd9.rdata'', dirname out_fc, in_params]
                 (w1\<lparr>processes := processes w1 @
                      [([''Rscript'', join (dirname (script_file e)) ''condRF.R'',
                         join (dirname (script_file e)) ''rf17bCnd9.rdata'', dirname out_fc, in_params],
                        Running)]\<rparr>)) = Some t"
    using a by (simp add: w1_def)
  from run_model_file_written[OF a' b]
  obtain w2 where w2: "run_model e (dirname out_fc) in_params w1 = (Inr (), w2)"
    "lookup_data w2 (dirname out_fc @ [sep] @ ''predicted_cond.dbf'') = Some (t\<lparr>dataType := Table\<rparr>)"
    "messages w2 = messages w1"
    by blast
  have m: "messages w2 = messages w @ [Message ''Predicting conductivity using Random Forest model in R...'']"
    using w2(3) by (simp add: w1_def)
  from main_proceeds_to_join[OF assms(1,2) w2(1)[unfolded w1_def] m]
  have "\<exists>ms. messages (snd (main e in_fc in_params out_fc rs_bool rs_dir w)) =
             messages w @ [Message ''Predicting conductivity using Random Forest model in R...'',
                           Message ''Joining predicted conductivity results to the stream network...'']
               @ ms" .
  with w2(1,2) show ?thesis unfolding w1_def by blast
qed

lemma demo_check: "checkLineOID ''C:/data/net.shp'' demo_world = (Inr (BoolVal True), demo_world)"
  by (simp add: checkLineOID_def bind_def return_def ListFields_def lookup_data_def source_path_def
      is_path_def is_sep_def in_memory_name_def demo_world_def key_net_def fieldName_def lower_def)

lemma demo_no_csv: "lookup_data demo_world (''C:/out'' @ [sep] @ ''predicted_cond.csv'') = None"
  by (simp add: lookup_data_def source_path_def is_path_def is_sep_def in_memory_name_def
      demo_world_def sep_def lower_def)

lemma demo_csv_on_disk: "in_memory_name (''C:/out'' @ [sep] @ ''predicted_cond.csv'') = None"
  by (simp add: in_memory_name_def lower_def)

lemma join_tools:
  "join ''C:/tools'' ''condRF.R'' = ''C:/tools'' @ [sep] @ ''condRF.R''"
  "join ''C:/tools'' ''rf17bCnd9.rdata'' = ''C:/tools'' @ [sep] @ ''rf17bCnd9.rdata''"
  by code_simp+

text \<open>
  C5.  For every run that passes the join-key check:
  \<^item> exactly one process is launched, with the command line
    \<^verbatim>\<open>Rscript <script> <model> <output directory> <parameter table>\<close>, and it has
    terminated when \<open>main\<close> goes on (whatever happens afterwards, the process is not
    left running);
  \<^item> the exit code of the process has no influence on what \<open>main\<close> does;
  \<^item> when the process wrote no table and no \<^verbatim>\<open>predicted_cond.csv\<close> is there, the run
    ends in the table conversion with the toolkit's error for a missing input, having
    written nothing;
  \<^item> when the process wrote a table (into an output directory on disk), the conversion
    succeeds, \<^verbatim>\<open>predicted_cond.dbf\<close> holds that table, and the run goes on to the join.
\<close>

theorem main_invokes_model:
  assumes "workspaces w (dirname in_fc) = Some t0"
      and "checkLineOID in_fc w = (Inr (BoolVal True), w)"
  shows "processes (snd (main e in_fc in_params out_fc rs_bool rs_dir w)) =
           processes w @ [([''Rscript'', join (dirname (script_file e)) ''condRF.R'',
                            join (dirname (script_file e)) ''rf17bCnd9.rdata'', dirname out_fc, in_params],
                           Terminated)]
       \<and> main (e\<lparr>condRF := \<lambda>a v. (rc a v, snd (condRF e a v))\<rparr>) in_fc in_params out_fc rs_bool rs_dir w =
           main e in_fc in_params out_fc rs_bool rs_dir w
       \<and> (snd (condRF e [join (dirname (script_file e)) ''rf17bCnd9.rdata'', dirname out_fc, in_params]
                 (w\<lparr>messages := messages w @
                      [Message ''Predicting conductivity using Random Forest model in R...''],
                    processes := processes w @
                      [([''Rscript'', join (dirname (script_file e)) ''condRF.R'',
                         join (dirname (script_file e)) ''rf17bCnd9.rdata'', dirname out_fc, in_params],
                        Running)]\<rparr>)) = None
            \<longrightarrow> lookup_data w (dirname out_fc @ [sep] @ ''predicted_cond.csv'') = None
            \<longrightarrow> main e in_fc in_params out_fc rs_bool rs_dir w =
                  (Inl (ExecuteError (dirname out_fc @ [sep] @ ''predicted_cond.csv'')),
                   w\<lparr>messages := messages w @
                        [Message ''Predicting conductivity using Random Forest model in R...''],
                      processes := processes w @
                        [([''Rscript'', join (dirname (script_file e)) ''condRF.R'',
                           join (dirname (script_file e)) ''rf17bCnd9.rdata'', dirname out_fc, in_params],
                          Terminated)]\<rparr>))
       \<and> (\<forall>t. snd (condRF e [join (dirname (script_file e)) ''rf17bCnd9.rdata'', dirname out_fc, in_params]
                 (w\<lparr>messages := messages w @
                      [Message ''Predicting conductivity using Random Forest model in R...''],
                    processes := processes w @
                      [([''Rscript'', join (dirname (script_file e)) ''condRF.R'',
                         join (dirname (script_file e)) ''rf17bCnd9.rdata'', dirname out_fc, in_params],
                        Running)]\<rparr>)) = Some t
            \<longrightarrow> in_memory_name (dirname out_fc @ [sep] @ ''predicted_cond.csv'') = None
            \<longrightarrow> (\<exists>w2. run_model e (dirname out_fc) in_params
                         (w\<lparr>messages := messages w @
                            [Message ''Predicting conductivity using Random Forest model in R...'']\<rparr>)
                       = (Inr (), w2)
                      \<and> lookup_data w2 (dirname out_fc @ [sep] @ ''predicted_cond.dbf'')
                          = Some (t\<lparr>dataType := Table\<rparr>))
                \<and> (\<exists>ms. messages (snd (main e in_fc in_params out_fc rs_bool rs_dir w)) =
                      messages w @ [Message ''Predicting conductivity using Random Forest model in R...'',
                                    Message ''Joining predicted conductivity results to the stream network...'']
                        @ ms))"
proof (intro conjI impI allI)
  show "processes (snd (main e in_fc in_params out_fc rs_bool rs_dir w)) =
           processes w @ [([''Rscript'', join (dirname (script_file e)) ''condRF.R'',
                            join (dirname (script_file e)) ''rf17bCnd9.rdata'', dirname out_fc, in_params],
                           Terminated)]"
    by (rule processes_main_passed[OF assms])
  show "main (e\<lparr>condRF := \<lambda>a v. (rc a v, snd (condRF e a v))\<rparr>) in_fc in_params out_fc rs_bool rs_dir w =
           main e in_fc in_params out_fc rs_bool rs_dir w"
    by (simp only: main_rc)
next
  assume "snd (condRF e [join (dirname (script_file e)) ''rf17bCnd9.rdata'', dirname out_fc, in_params]
                 (w\<lparr>messages := messages w @
                      [Message ''Predicting conductivity using Random Forest model in R...''],
                    processes := processes w @
                      [([''Rscript'', join (dirname (script_file e)) ''condRF.R'',
                         join (dirname (script_file e)) ''rf17bCnd9.rdata'', dirname out_fc, in_params],
                        Running)]\<rparr>)) = None"
     and "lookup_data w (dirname out_fc @ [sep] @ ''predicted_cond.csv'') = None"
  then show "main e in_fc in_params out_fc rs_bool rs_dir w =
                  (Inl (ExecuteError (dirname out_fc @ [sep] @ ''predicted_cond.csv'')),
                   w\<lparr>messages := messages w @
                        [Message ''Predicting conductivity using Random Forest model in R...''],
                      processes := processes w @
                        [([''Rscript'', join (dirname (script_file e)) ''condRF.R'',
                           join (dirname (script_file e)) ''rf17bCnd9.rdata'', dirname out_fc, in_params],
                          Terminated)]\<rparr>)"
    by (rule main_no_file[OF assms])
next
  fix t
  assume h: "snd (condRF e [join (dirname (script_file e)) ''rf17bCnd9.rdata'', dirname out_fc, in_params]
                 (w\<lparr>messages := messages w @
                      [Message ''Predicting conductivity using Random Forest model in R...''],
                    processes := processes w @
                      [([''Rscript'', join (dirname (script_file e)) ''condRF.R'',
                         join (dirname (script_file e)) ''rf17bCnd9.rdata'', dirname out_fc, in_params],
                        Running)]\<rparr>)) = Some t"
     "in_memory_name (dirname out_fc @ [sep] @ ''predicted_cond.csv'') = None"
  note r = main_file_written[OF assms h, of rs_bool rs_dir]
  show "\<exists>w2. run_model e (dirname out_fc) in_params
                         (w\<lparr>messages := messages w @
                            [Message ''Predicting conductivity using Random Forest model in R...'']\<rparr>)
                       = (Inr (), w2)
                      \<and> lookup_data w2 (dirname out_fc @ [sep] @ ''predicted_cond.dbf'')
                          = Some (t\<lparr>dataType := Table\<rparr>)"
    using r by (rule conjunct1)
  show "\<exists>ms. messages (snd (main e in_fc in_params out_fc rs_bool rs_dir w)) =
                      messages w @ [Message ''Predicting conductivity using Random Forest model in R...'',
                                    Message ''Joining predicted conductivity results to the stream network...'']
                        @ ms"
    using r by (rule conjunct2)
qed

theorem main_invokes_model_witness:
  "workspaces demo_world (dirname ''C:/data/net.shp'') = Some ''FileSystem''
   \<and> checkLineOID ''C:/data/net.shp'' demo_world = (Inr (BoolVal True), demo_world)
   \<and> lookup_data demo_world (''C:/out'' @ [sep] @ ''predicted_cond.csv'') = None
   \<and> in_memory_name (''C:/out'' @ [sep] @ ''predicted_cond.csv'') = None
   \<and> processes (snd (main failing_env ''C:/data/net.shp'' ''C:/data/ws_cond_param.dbf''
                         ''C:/out/cond.shp'' ''false'' ''C:/proj'' demo_world)) =
        processes demo_world @
        [([''Rscript'', ''C:/tools'' @ [sep] @ ''condRF.R'', ''C:/tools'' @ [sep] @ ''rf17bCnd9.rdata'',
           ''C:/out'', ''C:/data/ws_cond_param.dbf''], Terminated)]
   \<and> fst (main failing_env ''C:/data/net.shp'' ''C:/data/ws_cond_param.dbf''
               ''C:/out/cond.shp'' ''false'' ''C:/proj'' demo_world) =
        Inl (ExecuteError (''C:/out'' @ [sep] @ ''predicted_cond.csv''))
   \<and> (\<exists>w2. run_model demo_env ''C:/out'' ''C:/data/ws_cond_param.dbf''
              (demo_world\<lparr>messages := messages demo_world @
                 [Message ''Predicting conductivity using Random Forest model in R...'']\<rparr>) = (Inr (), w2)
            \<and> lookup_data w2 (''C:/out'' @ [sep] @ ''predicted_cond.dbf'')
                = Some (pred_table\<lparr>dataType := Table\<rparr>))
   \<and> (\<exists>ms. messages (snd (main demo_env ''C:/data/net.shp'' ''C:/data/ws_cond_param.dbf''
                               ''C:/out/cond.shp'' ''false'' ''C:/proj'' demo_world)) =
           messages demo_world @
             [Message ''Predicting conductivity using Random Forest model in R...'',
              Message ''Joining predicted conductivity results to the stream network...''] @ ms)"
proof -
  have h1: "workspaces demo_world (dirname ''C:/data/net.shp'') = Some ''FileSystem''"
    by (simp add: demo_dirs demo_world_def)
  have s: "script_file failing_env = ''C:/tools/predict_cond.py''"
    "script_file demo_env = ''C:/tools/predict_cond.py''"
    by (simp_all add: failing_env_def demo_env_def)
  have h3: "snd (condRF failing_env a v) = None" for a v
    by (simp add: failing_env_def)
  have h4: "snd (condRF demo_env a v) = Some pred_table" for a v
    by (simp add: demo_env_def)
  note m = main_invokes_model[OF h1 demo_check, of failing_env "''C:/data/ws_cond_param.dbf''"
      "''C:/out/cond.shp''" "''false''" "''C:/proj''", unfolded s demo_dirs join_tools]
  note n = main_invokes_model[OF h1 demo_check, of demo_env "''C:/data/ws_cond_param.dbf''"
      "''C:/out/cond.shp''" "''false''" "''C:/proj''", unfolded s demo_dirs join_tools]
  have p: "processes (snd (main failing_env ''C:/data/net.shp'' ''C:/data/ws_cond_param.dbf''
                         ''C:/out/cond.shp'' ''false'' ''C:/proj'' demo_world)) =
        processes demo_world @
        [([''Rscript'', ''C:/tools'' @ [sep] @ ''condRF.R'', ''C:/tools'' @ [sep] @ ''rf17bCnd9.rdata'',
           ''C:/out'', ''C:/data/ws_cond_param.dbf''], Terminated)]"
    using m by (rule conjunct1)
  have q: "fst (main failing_env ''C:/data/net.shp'' ''C:/data/ws_cond_param.dbf''
               ''C:/out/cond.shp'' ''false'' ''C:/proj'' demo_world) =
        Inl (ExecuteError (''C:/out'' @ [sep] @ ''predicted_cond.csv''))"
    using m[THEN conjunct2, THEN conjunct2, THEN conjunct1, rule_format, OF h3 demo_no_csv]
    by (simp only: fst_conv)
  note r = n[THEN conjunct2, THEN conjunct2, THEN conjunct2, rule_format, OF h4 demo_csv_on_disk]
  from h1 demo_check demo_no_csv demo_csv_on_disk p q r show ?thesis by blast
qed

section \<open>The export to the project\<close>

lemma no_new_lineage_preorder: "preorder_on_worlds no_new_lineage"
  by (simp add: preorder_on_worlds_def no_new_lineage_def)

lemma same_project_no_new_lineage: "steps same_project m \<Longrightarrow> steps no_new_lineage m"
  by (simp add: steps_def same_project_def no_new_lineage_def)

lemma no_new_lineage_copyRSFiles: "steps no_new_lineage (copyRSFiles a b)"
  by (simp add: steps_def no_new_lineage_def copyRSFiles_def split: option.splits)

lemma no_new_lineage_export:
  "steps no_new_lineage (export_project e px None in_fc out_fc rs_dir n1 n2)"
  by (rule steps_export_project)
     (simp_all add: no_new_lineage_preorder no_new_lineage_copyRSFiles
        same_project_no_new_lineage same_project_prims)

lemma main_not_passed:
  assumes "workspaces w (dirname in_fc) = Some t"
      and "checkLineOID in_fc w \<noteq> (Inr (BoolVal True), w)"
  shows "fst (main e in_fc in_params out_fc rs_bool rs_dir w) \<noteq> Inr ()
         \<and> project (snd (main e in_fc in_params out_fc rs_bool rs_dir w)) = project w"
proof -
  obtain r wc where c: "checkLineOID in_fc w = (r, wc)" by (cases "checkLineOID in_fc w")
  then have wc: "wc = w" by (rule checkLineOID_world)
  have n: "r \<noteq> Inr (BoolVal True)" using assms(2) c wc by simp
  show ?thesis
    using assms(1) c wc n
    by (cases r) (simp_all add: main_def Let_def bind_def Describe_workspaceType_def
          AddError_def raise_def)
qed

lemma main_unbound_never_returns:
  assumes "rs_bool = ''true''" "workspaces w (dirname in_fc) = Some t" "t \<noteq> ''LocalDatabase''"
  shows "fst (main e in_fc in_params out_fc rs_bool rs_dir w) \<noteq> Inr ()"
proof
  assume "fst (main e in_fc in_params out_fc rs_bool rs_dir w) = Inr ()"
  then have "main e in_fc in_params out_fc rs_bool rs_dir w =
               (Inr (), snd (main e in_fc in_params out_fc rs_bool rs_dir w))"
    by (metis prod.collapse)
  then show False
  proof (rule main_Inr)
    fix t' w3 w4
    assume "workspaces w (dirname in_fc) = Some t'"
      and "(if rs_bool = ''true''
      then export_project e (Some (ProjectXML_init e ''predict'' (rs_dir @ [sep] @ ''project.rs.xml'')))
             (if t' = ''LocalDatabase'' then Some (basename in_fc @ ''.shp'') else None)
             in_fc out_fc rs_dir (basename in_fc) (basename out_fc)
      else return ()) w3 = (Inr (), w4)"
    then show False using assms by (simp add: export_project_unbound)
  qed
qed

lemma main_unbound_no_lineage:
  assumes "workspaces w (dirname in_fc) = Some t" "t \<noteq> ''LocalDatabase''"
  shows "no_new_lineage w (snd (main e in_fc in_params out_fc rs_bool rs_dir w))"
proof (cases "checkLineOID in_fc w = (Inr (BoolVal True), w)")
  case False
  from main_not_passed[OF assms(1) False, of e in_params out_fc rs_bool rs_dir]
  show ?thesis by (simp add: no_new_lineage_def)
next
  case True
  define w1 where "w1 = w\<lparr>messages := messages w @ [Message ''Predicting conductivity using Random Forest model in R...'']\<rparr>"
  have "steps no_new_lineage
          (bind (predict_and_join e in_fc in_params out_fc (dirname out_fc) (out_xml_path e out_fc)
             (new_writer e in_fc in_params out_fc)) (\<lambda>_.
           bind (if rs_bool = ''true''
           then export_project e (Some (ProjectXML_init e ''predict'' (rs_dir @ [sep] @ ''project.rs.xml'')))
                  (if t = ''LocalDatabase'' then Some (basename in_fc @ ''.shp'') else None)
                  in_fc out_fc rs_dir (basename in_fc) (basename out_fc)
           else return ()) (\<lambda>_. clean_up (dirname out_fc))))"
    using assms(2)
    by (intro steps_bind steps_if steps_return no_new_lineage_preorder)
       (simp_all add: no_new_lineage_export same_project_no_new_lineage same_project_blocks)
  then have "no_new_lineage w1 (snd (main e in_fc in_params out_fc rs_bool rs_dir w))"
    unfolding main_passed[OF assms(1) True] w1_def by (simp add: steps_def)
  then show ?thesis by (simp add: no_new_lineage_def w1_def)
qed

lemma export_project_reaches:
  assumes "realIDdict pxml (rs_real_name e) = Some rid"
      and "lookup_data w in_fc \<noteq> None" "lookup_data w out_fc \<noteq> None"
  shows "\<exists>w5. export_project e (Some pxml) None in_fc out_fc rs_dir n1 n2 w =
               (Inl (UnboundLocalError ''in_shp_name''), w5)"
  using assms
  by (auto simp: export_project_def Let_def bind_def AddMessage_def copyRSFiles_def raise_def)

lemma main_unbound_reached:
  assumes "rs_bool = ''true''" "workspaces w (dirname in_fc) = Some t" "t \<noteq> ''LocalDatabase''"
    and "checkLineOID in_fc w = (Inr (BoolVal True), w)"
    and "predict_and_join e in_fc in_params out_fc (dirname out_fc) (out_xml_path e out_fc)
           (new_writer e in_fc in_params out_fc)
           (w\<lparr>messages := messages w @ [Message ''Predicting conductivity using Random Forest model in R...'']\<rparr>)
         = (Inr (), w4)"
    and "realizations e (rs_real_name e) \<noteq> None"
    and "lookup_data w4 in_fc \<noteq> None" "lookup_data w4 out_fc \<noteq> None"
  shows "\<exists>w5. main e in_fc in_params out_fc rs_bool rs_dir w = (Inl (UnboundLocalError ''in_shp_name''), w5)"
proof -
  obtain rid where "realIDdict (ProjectXML_init e ''predict'' (rs_dir @ [sep] @ ''project.rs.xml'')) (rs_real_name e) = Some rid"
    using assms(6) by (auto simp: ProjectXML_init_def)
  from export_project_reaches[OF this assms(7,8)]
  obtain w5 where "export_project e (Some (ProjectXML_init e ''predict'' (rs_dir @ [sep] @ ''project.rs.xml'')))
       None in_fc out_fc rs_dir (basename in_fc) (basename out_fc) w4 = (Inl (UnboundLocalError ''in_shp_name''), w5)"
    by blast
  then show ?thesis
    unfolding main_passed[OF assms(2,4)] using assms(1,3,5)
    by (simp only: bind_def sum.case prod.case if_True if_False simp_thms) (rule exI, rule refl)
qed

lemma demo_missing_key_project_mode:
  "main demo_env ''C:/data/plain.shp'' ''C:/data/ws_cond_param.dbf'' ''C:/out/cond.shp''
         ''true'' ''C:/proj'' demo_world =
       (Inl (SystemExit 0),
        demo_world\<lparr>messages := messages demo_world @
          [ErrorMessage ''The LineOID attribute field is missing! Cancelling process...'']\<rparr>)"
proof -
  have h2: "''LineOID'' \<notin> set (map name (dfields plain_net))"
    by (simp add: plain_net_def)
  have h3: "workspaces demo_world (dirname ''C:/data/plain.shp'') = Some ''FileSystem''"
    by (simp add: demo_dirs demo_world_def)
  show ?thesis by (rule main_without_key[OF plain_lookup h2 h3])
qed

lemma demo_predict_and_join:
  "(case predict_and_join demo_env ''C:/data/net.shp'' ''C:/data/ws_cond_param.dbf'' ''C:/out/cond.shp''
           (dirname ''C:/out/cond.shp'') (out_xml_path demo_env ''C:/out/cond.shp'')
           (new_writer demo_env ''C:/data/net.shp'' ''C:/data/ws_cond_param.dbf'' ''C:/out/cond.shp'')
           (demo_world\<lparr>messages := messages demo_world @
              [Message ''Predicting conductivity using Random Forest model in R...'']\<rparr>) of
      (r, w4) \<Rightarrow> r = Inr () \<and> lookup_data w4 ''C:/data/net.shp'' \<noteq> None
                  \<and> lookup_data w4 ''C:/out/cond.shp'' \<noteq> None)"
  by code_simp

text \<open>
  C9.  The claim: every run in project mode whose input lies in a workspace that is not a
  local database raises \<^verbatim>\<open>NameError\<close> where the relative lineage path is built, and
  the lineage document is therefore never written.  As stated it fails: such a run may
  end earlier, for instance with the clean exit of a missing join key.
\<close>

theorem project_mode_shapefile_exits_counterexample:
  "workspaces demo_world (dirname ''C:/data/plain.shp'') = Some ''FileSystem''
   \<and> ''FileSystem'' \<noteq> ''LocalDatabase''
   \<and> fst (main demo_env ''C:/data/plain.shp'' ''C:/data/ws_cond_param.dbf'' ''C:/out/cond.shp''
              ''true'' ''C:/proj'' demo_world) = Inl (SystemExit 0)
   \<and> \<not> is_NameError (SystemExit 0)"
proof -
  have a: "workspaces demo_world (dirname ''C:/data/plain.shp'') = Some ''FileSystem''"
    by (simp add: demo_dirs demo_world_def)
  have b: "fst (main demo_env ''C:/data/plain.shp'' ''C:/data/ws_cond_param.dbf'' ''C:/out/cond.shp''
              ''true'' ''C:/proj'' demo_world) = Inl (SystemExit 0)"
    by (simp only: demo_missing_key_project_mode fst_conv)
  show ?thesis using a b by simp
qed

text \<open>
  C9, amended.  In project mode, with the input in a workspace that is not a local
  database: no run returns normally; no run writes a lineage document; and a run that
  passes the join-key check, completes prediction, join and the generic metadata document,
  knows the realization and copies both datasets raises \<^verbatim>\<open>UnboundLocalError\<close> (a
  \<^verbatim>\<open>NameError\<close>) for \<open>in_shp_name\<close>.
\<close>

theorem project_mode_unbound_in_shp_name:
  assumes "rs_bool = ''true''"
      and "workspaces w (dirname in_fc) = Some t"
      and "t \<noteq> ''LocalDatabase''"
  shows "fst (main e in_fc in_params out_fc rs_bool rs_dir w) \<noteq> Inr ()
       \<and> (\<forall>p x. project (snd (main e in_fc in_params out_fc rs_bool rs_dir w)) p = Some (ProjectFile x)
              \<longrightarrow> project w p = Some (ProjectFile x))
       \<and> (\<forall>w4. checkLineOID in_fc w = (Inr (BoolVal True), w)
              \<longrightarrow> predict_and_join e in_fc in_params out_fc (dirname out_fc) (out_xml_path e out_fc)
                    (new_writer e in_fc in_params out_fc)
                    (w\<lparr>messages := messages w @
                       [Message ''Predicting conductivity using Random Forest model in R...'']\<rparr>)
                  = (Inr (), w4)
              \<longrightarrow> realizations e (rs_real_name e) \<noteq> None
              \<longrightarrow> lookup_data w4 in_fc \<noteq> None
              \<longrightarrow> lookup_data w4 out_fc \<noteq> None
              \<longrightarrow> (\<exists>err. fst (main e in_fc in_params out_fc rs_bool rs_dir w) = Inl err
                         \<and> is_NameError err \<and> err = UnboundLocalError ''in_shp_name''))"
proof (intro conjI allI impI)
  show "fst (main e in_fc in_params out_fc rs_bool rs_dir w) \<noteq> Inr ()"
    by (rule main_unbound_never_returns[OF assms])
next
  fix p x
  assume "project (snd (main e in_fc in_params out_fc rs_bool rs_dir w)) p = Some (ProjectFile x)"
  then show "project w p = Some (ProjectFile x)"
    using main_unbound_no_lineage[OF assms(2,3), of e in_params out_fc rs_bool rs_dir]
    by (simp add: no_new_lineage_def)
next
  fix w4
  assume "checkLineOID in_fc w = (Inr (BoolVal True), w)"
    and "predict_and_join e in_fc in_params out_fc (dirname out_fc) (out_xml_path e out_fc)
                    (new_writer e in_fc in_params out_fc)
                    (w\<lparr>messages := messages w @
                       [Message ''Predicting conductivity using Random Forest model in R...'']\<rparr>)
                  = (Inr (), w4)"
    and "realizations e (rs_real_name e) \<noteq> None"
    and "lookup_data w4 in_fc \<noteq> None" "lookup_data w4 out_fc \<noteq> None"
  from main_unbound_reached[OF assms this]
  obtain w5 where "main e in_fc in_params out_fc rs_bool rs_dir w = (Inl (UnboundLocalError ''in_shp_name''), w5)"
    by blast
  then show "\<exists>err. fst (main e in_fc in_params out_fc rs_bool rs_dir w) = Inl err
                         \<and> is_NameError err \<and> err = UnboundLocalError ''in_shp_name''"
    by simp
qed

theorem project_mode_unbound_in_shp_name_witness:
  "workspaces demo_world (dirname ''C:/data/net.shp'') = Some ''FileSystem''
   \<and> ''FileSystem'' \<noteq> ''LocalDatabase''
   \<and> checkLineOID ''C:/data/net.shp'' demo_world = (Inr (BoolVal True), demo_world)
   \<and> realizations demo_env (rs_real_name demo_env) \<noteq> None
   \<and> fst (main demo_env ''C:/data/net.shp'' ''C:/data/ws_cond_param.dbf'' ''C:/out/cond.shp''
              ''true'' ''C:/proj'' demo_world) = Inl (UnboundLocalError ''in_shp_name'')
   \<and> \<not> (\<exists>x. project (snd (main demo_env ''C:/data/net.shp'' ''C:/data/ws_cond_param.dbf''
                               ''C:/out/cond.shp'' ''true'' ''C:/proj'' demo_world))
                 (''C:/proj'' @ [sep] @ ''project.rs.xml'') = Some (ProjectFile x))"
proof -
  have h1: "workspaces demo_world (dirname ''C:/data/net.shp'') = Some ''FileSystem''"
    by (simp add: demo_dirs demo_world_def)
  have h2: "''FileSystem'' \<noteq> ''LocalDatabase''" by simp
  have h3: "realizations demo_env (rs_real_name demo_env) \<noteq> None"
    by (simp add: demo_env_def)
  note m = project_mode_unbound_in_shp_name[OF refl h1 h2, of demo_env "''C:/data/ws_cond_param.dbf''"
      "''C:/out/cond.shp''" "''C:/proj''"]
  obtain r w4 where pj: "predict_and_join demo_env ''C:/data/net.shp'' ''C:/data/ws_cond_param.dbf'' ''C:/out/cond.shp''
           (dirname ''C:/out/cond.shp'') (out_xml_path demo_env ''C:/out/cond.shp'')
           (new_writer demo_env ''C:/data/net.shp'' ''C:/data/ws_cond_param.dbf'' ''C:/out/cond.shp'')
           (demo_world\<lparr>messages := messages demo_world @
              [Message ''Predicting conductivity using Random Forest model in R...'']\<rparr>) = (r, w4)"
    by (rule prod.exhaust)
  with demo_predict_and_join have f: "r = Inr ()" "lookup_data w4 ''C:/data/net.shp'' \<noteq> None"
    "lookup_data w4 ''C:/out/cond.shp'' \<noteq> None"
    by simp_all
  from m[THEN conjunct2, THEN conjunct2, rule_format, OF demo_check pj[unfolded f(1)] h3 f(2) f(3)]
  have e: "fst (main demo_env ''C:/data/net.shp'' ''C:/data/ws_cond_param.dbf'' ''C:/out/cond.shp''
              ''true'' ''C:/proj'' demo_world) = Inl (UnboundLocalError ''in_shp_name'')"
    by blast
  have "project demo_world p = None" for p by (simp add: demo_world_def)
  with m[THEN conjunct2, THEN conjunct1]
  have n: "\<not> (\<exists>x. project (snd (main demo_env ''C:/data/net.shp'' ''C:/data/ws_cond_param.dbf''
                               ''C:/out/cond.shp'' ''true'' ''C:/proj'' demo_world))
                 (''C:/proj'' @ [sep] @ ''project.rs.xml'') = Some (ProjectFile x))"
    by fastforce
  from h1 h2 h3 demo_check e n show ?thesis by blast
qed

section \<open>The generic metadata document\<close>

lemma in_memory_name_IN_MEMORY [simp]: "in_memory_name (''IN_MEMORY'' @ [sep] @ n) = Some n"
  by (simp add: in_memory_name_def lower_def sep_def is_sep_def)

lemma in_memory_name_in_memory [simp]: "in_memory_name (''in_memory'' @ [sep] @ n) = Some n"
  by (simp add: in_memory_name_def lower_def sep_def is_sep_def)

lemma disk_store_data:
  "disk (store_data p d w) q =
     (if in_memory_name p = None \<and> q = p then Some (Dataset d) else disk w q)"
  by (simp add: store_data_def split: option.splits)

lemma no_new_documents_preorder: "preorder_on_worlds no_new_documents"
  by (simp add: preorder_on_worlds_def no_new_documents_def)

lemma disk_outside_preorder: "preorder_on_worlds (disk_outside S)"
  by (simp add: preorder_on_worlds_def disk_outside_def)

lemma no_new_documents_prims:
  "steps no_new_documents (AddMessage s)"
  "steps no_new_documents (ListFields ds wc)"
  "steps no_new_documents (MakeFeatureLayer a b)"
  "steps no_new_documents (MakeTableView a b)"
  "steps no_new_documents (FeatureClassToFeatureClass a b c)"
  "steps no_new_documents (TableToTable a b c)"
  "steps no_new_documents (CopyFeatures a b)"
  "steps no_new_documents (JoinField a b c d')"
  "steps no_new_documents (DeleteField a l)"
  "steps no_new_documents (Delete_management a)"
  "steps no_new_documents (write_ProjectXML x)"
  "steps no_new_documents (copyRSFiles a b)"
  "steps no_new_documents (Popen cmd)"
  by (simp_all add: steps_def no_new_documents_def prim_defs Popen_def disk_store_data Let_def
      split: option.splits prod.splits)

lemma no_new_documents_wait: "steps no_new_documents (wait e h)"
  by (simp add: steps_def no_new_documents_def wait_def Let_def
      split: list.splits option.splits prod.splits proc_state.splits)

lemma no_new_documents_blocks:
  "steps no_new_documents (run_model e out_dir in_params)"
  "steps no_new_documents (join_results in_fc out_fc out_dir)"
  "steps no_new_documents (export_project e px shp a b c d f)"
  "steps no_new_documents (clean_up out_dir)"
  by (intro steps_run_model steps_join_results steps_export_project steps_clean_up
      no_new_documents_preorder no_new_documents_prims no_new_documents_wait)+

lemma disk_outside_prims:
  "steps (disk_outside S) (AddMessage s)"
  "steps (disk_outside S) (ListFields ds wc)"
  "steps (disk_outside S) (MakeFeatureLayer a b)"
  "steps (disk_outside S) (MakeTableView a b)"
  "steps (disk_outside S) (write_ProjectXML x)"
  "steps (disk_outside S) (copyRSFiles a b)"
  "steps (disk_outside S) (Popen cmd)"
  by (simp_all add: steps_def disk_outside_def prim_defs Popen_def Let_def
      split: option.splits prod.splits)

lemma disk_outside_Delete_in_memory:
  "steps (disk_outside S) (Delete_management (''IN_MEMORY'' @ [sep] @ n))"
  by (simp only: steps_def disk_outside_def Delete_management_def in_memory_name_IN_MEMORY
      option.case) simp

lemma disk_outside_Delete: "p \<in> S \<Longrightarrow> steps (disk_outside S) (Delete_management p)"
  by (simp add: steps_def disk_outside_def Delete_management_def split: option.splits)

lemma disk_outside_store:
  "p \<in> S \<or> in_memory_name p \<noteq> None \<Longrightarrow> disk_outside S w (store_data p d w)"
  by (auto simp: disk_outside_def disk_store_data)

lemma disk_outside_export_clean:
  "steps (disk_outside {out_dir @ [sep] @ ''predicted_cond.dbf'', out_dir @ [sep] @ ''predicted_cond.csv''})
     (export_project e px shp a b c d f)"
  "steps (disk_outside {out_dir @ [sep] @ ''predicted_cond.dbf'', out_dir @ [sep] @ ''predicted_cond.csv''})
     (clean_up out_dir)"
  by (intro steps_export_project steps_clean_up disk_outside_preorder disk_outside_prims
      disk_outside_Delete_in_memory disk_outside_Delete; simp)+

lemma splitdrive_meta: "splitdrive (''meta_predict'' @ ''_'' @ ts @ ''.'' @ ''xml'') = ([], ''meta_predict'' @ ''_'' @ ts @ ''.'' @ ''xml'')"
  by (simp add: splitdrive_def Let_def sep_def)

lemma join_suffix:
  assumes "splitdrive b = ([], b)" "b \<noteq> []" "\<not> is_sep (hd b)"
  shows "\<exists>pre. join a b = pre @ b"
proof (cases "splitdrive a")
  case (Pair d p)
  then show ?thesis using assms
    by (auto simp: join_def Let_def)
qed

lemma last_out_xml: "last (out_xml_path e out_fc) = CHR ''l''"
proof -
  obtain pre where "out_xml_path e out_fc = pre @ (''meta_predict'' @ ''_'' @ strftime_YmdHM (localtime e) @ ''.'' @ ''xml'')"
    unfolding out_xml_path_def Let_def
    using join_suffix[OF splitdrive_meta, of "strftime_YmdHM (localtime e)" "dirname out_fc"]
    by (auto simp: is_sep_def)
  then show ?thesis by simp
qed

lemma out_xml_not_pred:
  "out_xml_path e out_fc \<noteq> x @ [sep] @ ''predicted_cond.dbf''"
  "out_xml_path e out_fc \<noteq> x @ [sep] @ ''predicted_cond.csv''"
  using last_out_xml[of e out_fc] by auto

lemma new_writer_final:
  "finalizeRun ''Success'' (run_stop e) (new_writer e in_fc in_params out_fc) =
     \<lparr>toolName = ''Predict Conductivity'', toolVersion = ''0.4'',
      currentRun = Some \<lparr>parameters =
          [(''Stream network polyline feature class'', in_fc),
           (''Environmental parameter table'', in_params),
           (''Predicted conductivity feature class'', out_fc),
           (''Output metadata XML'', out_xml_path e out_fc)],
        timeStart = run_start e, timeStop = Some (run_stop e), status = Some ''Success''\<rparr>\<rparr>"
  by (simp add: finalizeRun_def new_writer_def addParameter_def createRun_def MetadataWriter_init_def)

lemma digit_in: "digit n \<in> set ''0123456789''"
proof -
  have "n mod 10 < length ''0123456789''" by simp
  then show ?thesis unfolding digit_def by (rule nth_mem)
qed

lemma strftime_shape:
  "length (strftime_YmdHM t) = 12" "set (strftime_YmdHM t) \<subseteq> set ''0123456789''"
proof -
  show "length (strftime_YmdHM t) = 12"
    by (simp add: strftime_YmdHM_def two_digits_def)
  define D where "D = set ''0123456789''"
  have "digit n \<in> D" for n unfolding D_def by (rule digit_in)
  then have "set (strftime_YmdHM t) \<subseteq> D"
    by (simp add: strftime_YmdHM_def two_digits_def)
  then show "set (strftime_YmdHM t) \<subseteq> set ''0123456789''" unfolding D_def .
qed

lemma predict_and_join_xml:
  assumes "predict_and_join e in_fc in_params out_fc out_dir out_xml mw w = (Inr (), w3)"
  shows "disk w3 out_xml = Some (MetadataFile (finalizeRun ''Success'' (run_stop e) mw))
       \<and> (\<forall>p m. disk w3 p = Some (MetadataFile m) \<longrightarrow> p = out_xml \<or> disk w p = Some (MetadataFile m))"
proof -
  from assms obtain w2 w2' where
    a: "run_model e out_dir in_params w = (Inr (), w2)"
    and b: "join_results in_fc out_fc out_dir w2 = (Inr (), w2')"
    and c: "writeMetadataFile out_xml (finalizeRun ''Success'' (run_stop e) mw) w2' = (Inr (), w3)"
    unfolding predict_and_join_def Let_def bind_Inr by auto
  have "no_new_documents w w2" using no_new_documents_blocks(1) a by (rule stepsD)
  moreover have "no_new_documents w2 w2'" using no_new_documents_blocks(2) b by (rule stepsD)
  ultimately have n: "no_new_documents w w2'"
    by (simp add: no_new_documents_def)
  from c have w3: "w3 = w2'\<lparr>disk := (disk w2')(out_xml \<mapsto> MetadataFile (finalizeRun ''Success'' (run_stop e) mw))\<rparr>"
    by (simp add: writeMetadataFile_def)
  show ?thesis using n by (auto simp: w3 no_new_documents_def)
qed

lemma main_xml:
  assumes "main e in_fc in_params out_fc rs_bool rs_dir w = (Inr (), w')"
  shows "disk w' (out_xml_path e out_fc) =
           Some (MetadataFile (finalizeRun ''Success'' (run_stop e) (new_writer e in_fc in_params out_fc)))
       \<and> (\<forall>p m. disk w' p = Some (MetadataFile m)
              \<longrightarrow> p = out_xml_path e out_fc \<or> disk w p = Some (MetadataFile m))"
  using assms
proof (rule main_Inr)
  fix t w3 w4
  let ?S = "{dirname out_fc @ [sep] @ ''predicted_cond.dbf'', dirname out_fc @ [sep] @ ''predicted_cond.csv''}"
  let ?X = "if rs_bool = ''true''
      then export_project e (Some (ProjectXML_init e ''predict'' (rs_dir @ [sep] @ ''project.rs.xml'')))
             (if t = ''LocalDatabase'' then Some (basename in_fc @ ''.shp'') else None)
             in_fc out_fc rs_dir (basename in_fc) (basename out_fc)
      else return ()"
  assume pj: "predict_and_join e in_fc in_params out_fc (dirname out_fc) (out_xml_path e out_fc)
       (new_writer e in_fc in_params out_fc)
       (w\<lparr>messages := messages w @ [Message ''Predicting conductivity using Random Forest model in R...'']\<rparr>)
     = (Inr (), w3)"
    and ex: "?X w3 = (Inr (), w4)"
    and cl: "clean_up (dirname out_fc) w4 = (Inr (), w')"
  note x = predict_and_join_xml[OF pj]
  have sx: "steps (disk_outside ?S) ?X" "steps no_new_documents ?X"
    by (intro steps_if steps_return disk_outside_export_clean no_new_documents_blocks
        disk_outside_preorder no_new_documents_preorder)+
  have d1: "disk_outside ?S w3 w4" using sx(1) ex by (rule stepsD)
  have d2: "disk_outside ?S w4 w'" using disk_outside_export_clean(2) cl by (rule stepsD)
  have n1: "no_new_documents w3 w4" using sx(2) ex by (rule stepsD)
  have n2: "no_new_documents w4 w'" using no_new_documents_blocks(4) cl by (rule stepsD)
  have "out_xml_path e out_fc \<notin> ?S" using out_xml_not_pred[of e out_fc "dirname out_fc"] by simp
  then have "disk w' (out_xml_path e out_fc) = disk w3 (out_xml_path e out_fc)"
    using d1 d2 by (simp add: disk_outside_def)
  moreover have "disk w3 p = Some (MetadataFile m)" if "disk w' p = Some (MetadataFile m)" for p m
    using that n1 n2 by (simp add: no_new_documents_def)
  ultimately show ?thesis using x by auto
qed

lemma demo_run:
  "(case main demo_env ''C:/data/net.shp'' ''C:/data/ws_cond_param.dbf'' ''C:/out/cond.shp''
           ''false'' ''C:/proj'' demo_world of
      (r, w') \<Rightarrow> r = Inr () \<and> lookup_data w' ''C:/out/cond.shp'' = Some demo_out
                 \<and> in_memory w' = []
                 \<and> disk w' (''C:/out'' @ [sep] @ ''predicted_cond.dbf'') = None
                 \<and> disk w' (''C:/out'' @ [sep] @ ''predicted_cond.csv'') = None)"
  by code_simp


lemma demo_run_Inr:
  "main demo_env ''C:/data/net.shp'' ''C:/data/ws_cond_param.dbf'' ''C:/out/cond.shp''
           ''false'' ''C:/proj'' demo_world =
     (Inr (), snd (main demo_env ''C:/data/net.shp'' ''C:/data/ws_cond_param.dbf'' ''C:/out/cond.shp''
           ''false'' ''C:/proj'' demo_world))"
  using demo_run by (simp split: prod.splits)


lemma demo_no_documents: "disk demo_world p \<noteq> Some (MetadataFile m)"
  by (simp add: demo_world_def)

text \<open>
  C6.  After every run of \<open>main\<close> that returns, the file
  \<^verbatim>\<open>meta_predict_<YYYYMMDDHHMM>.xml\<close> in the output directory (the twelve characters
  are digits) holds the generic metadata document with the tool name and version, the four
  declared parameters, the start and stop time and the status \<^verbatim>\<open>Success\<close>; and it is
  the only metadata document the run has written.
\<close>

theorem generic_metadata_written:
  assumes "main e in_fc in_params out_fc rs_bool rs_dir w = (Inr (), w')"
  shows "disk w' (out_xml_path e out_fc) =
           Some (MetadataFile
             \<lparr>toolName = ''Predict Conductivity'', toolVersion = ''0.4'',
              currentRun = Some \<lparr>parameters =
                  [(''Stream network polyline feature class'', in_fc),
                   (''Environmental parameter table'', in_params),
                   (''Predicted conductivity feature class'', out_fc),
                   (''Output metadata XML'', out_xml_path e out_fc)],
                timeStart = run_start e, timeStop = Some (run_stop e),
                status = Some ''Success''\<rparr>\<rparr>)
       \<and> out_xml_path e out_fc =
           join (dirname out_fc) (''meta_predict_'' @ strftime_YmdHM (localtime e) @ ''.xml'')
       \<and> length (strftime_YmdHM (localtime e)) = 12
       \<and> set (strftime_YmdHM (localtime e)) \<subseteq> set ''0123456789''
       \<and> (\<forall>p m. disk w' p = Some (MetadataFile m)
              \<longrightarrow> p = out_xml_path e out_fc \<or> disk w p = Some (MetadataFile m))"
proof -
  note x = main_xml[OF assms, unfolded new_writer_final]
  have "out_xml_path e out_fc =
           join (dirname out_fc) (''meta_predict_'' @ strftime_YmdHM (localtime e) @ ''.xml'')"
    by (simp add: out_xml_path_def)
  with x strftime_shape[of "localtime e"] show ?thesis by blast
qed

theorem generic_metadata_written_witness:
  "fst (main demo_env ''C:/data/net.shp'' ''C:/data/ws_cond_param.dbf'' ''C:/out/cond.shp''
           ''false'' ''C:/proj'' demo_world) = Inr ()
   \<and> out_xml_path demo_env ''C:/out/cond.shp'' = ''C:/out'' @ [sep] @ ''meta_predict_201603091405.xml''
   \<and> disk (snd (main demo_env ''C:/data/net.shp'' ''C:/data/ws_cond_param.dbf'' ''C:/out/cond.shp''
           ''false'' ''C:/proj'' demo_world)) (''C:/out'' @ [sep] @ ''meta_predict_201603091405.xml'') =
           Some (MetadataFile
             \<lparr>toolName = ''Predict Conductivity'', toolVersion = ''0.4'',
              currentRun = Some \<lparr>parameters =
                  [(''Stream network polyline feature class'', ''C:/data/net.shp''),
                   (''Environmental parameter table'', ''C:/data/ws_cond_param.dbf''),
                   (''Predicted conductivity feature class'', ''C:/out/cond.shp''),
                   (''Output metadata XML'', ''C:/out'' @ [sep] @ ''meta_predict_201603091405.xml'')],
                timeStart = ''14:05:00'', timeStop = Some ''14:06:30'',
                status = Some ''Success''\<rparr>\<rparr>)
   \<and> \<not> (\<exists>p m. disk (snd (main demo_env ''C:/data/net.shp'' ''C:/data/ws_cond_param.dbf''
                     ''C:/out/cond.shp'' ''false'' ''C:/proj'' demo_world)) p = Some (MetadataFile m)
              \<and> p \<noteq> ''C:/out'' @ [sep] @ ''meta_predict_201603091405.xml'')"
proof -
  have x: "out_xml_path demo_env ''C:/out/cond.shp'' = ''C:/out'' @ [sep] @ ''meta_predict_201603091405.xml''"
    by code_simp
  have s: "run_start demo_env = ''14:05:00''" "run_stop demo_env = ''14:06:30''"
    by (simp_all add: demo_env_def)
  note g = generic_metadata_written[OF demo_run_Inr, unfolded x s]
  have "fst (main demo_env ''C:/data/net.shp'' ''C:/data/ws_cond_param.dbf'' ''C:/out/cond.shp''
           ''false'' ''C:/proj'' demo_world) = Inr ()"
    using demo_run by (simp split: prod.splits)
  moreover have "\<not> (\<exists>p m. disk (snd (main demo_env ''C:/data/net.shp'' ''C:/data/ws_cond_param.dbf''
                     ''C:/out/cond.shp'' ''false'' ''C:/proj'' demo_world)) p = Some (MetadataFile m)
              \<and> p \<noteq> ''C:/out'' @ [sep] @ ''meta_predict_201603091405.xml'')"
    using g demo_no_documents by blast
  ultimately show ?thesis using g x by blast
qed

section \<open>The products of project mode\<close>





section \<open>The fields of the output feature class\<close>


















end
